theory Spec2Isabelle
  imports Main
begin

section \<open>Strings and JavaScript idioms\<close>

text \<open>
  A JavaScript string is modelled as a \<open>string\<close> holding the bytes of its UTF-8 encoding (a
  well-formed string: no lone surrogate). A byte below 0x80 is an ASCII character, and no
  such byte occurs inside the encoding of another character.
\<close>

text \<open>\<open>s.startsWith(pre)\<close> and \<open>s.endsWith(suf)\<close>\<close>

definition startsWith :: "string \<Rightarrow> string \<Rightarrow> bool" where
  "startsWith s pre = (take (length pre) s = pre)"

definition endsWith :: "string \<Rightarrow> string \<Rightarrow> bool" where
  "endsWith s suf = (length suf \<le> length s \<and> drop (length s - length suf) s = suf)"

text \<open>
  The code points that \<open>String.prototype.trim\<close> strips, each as its UTF-8 bytes: the white
  space of ECMAScript (U+0009, U+000B, U+000C, U+FEFF and the space separators U+0020,
  U+00A0, U+1680, U+2000 to U+200A, U+202F, U+205F, U+3000) and its line terminators
  (U+000A, U+000D, U+2028, U+2029).
\<close>

definition whiteSpace :: "string list" where
  "whiteSpace =
     [[CHR 0x09], [CHR 0x0A], [CHR 0x0B], [CHR 0x0C], [CHR 0x0D], [CHR 0x20],
      [CHR 0xC2, CHR 0xA0], [CHR 0xE1, CHR 0x9A, CHR 0x80],
      [CHR 0xE2, CHR 0x80, CHR 0x80], [CHR 0xE2, CHR 0x80, CHR 0x81],
      [CHR 0xE2, CHR 0x80, CHR 0x82], [CHR 0xE2, CHR 0x80, CHR 0x83],
      [CHR 0xE2, CHR 0x80, CHR 0x84], [CHR 0xE2, CHR 0x80, CHR 0x85],
      [CHR 0xE2, CHR 0x80, CHR 0x86], [CHR 0xE2, CHR 0x80, CHR 0x87],
      [CHR 0xE2, CHR 0x80, CHR 0x88], [CHR 0xE2, CHR 0x80, CHR 0x89],
      [CHR 0xE2, CHR 0x80, CHR 0x8A], [CHR 0xE2, CHR 0x80, CHR 0xA8],
      [CHR 0xE2, CHR 0x80, CHR 0xA9], [CHR 0xE2, CHR 0x80, CHR 0xAF],
      [CHR 0xE2, CHR 0x81, CHR 0x9F], [CHR 0xE3, CHR 0x80, CHR 0x80],
      [CHR 0xEF, CHR 0xBB, CHR 0xBF]]"

text \<open>
  \<open>trim\<close> removes the white space at the start and at the end, one code point at a time.
\<close>

function trimStart :: "string \<Rightarrow> string" where
  "trimStart s =
     (case find (startsWith s) whiteSpace of
        None \<Rightarrow> s
      | Some w \<Rightarrow> trimStart (drop (length w) s))"
  by pat_completeness auto
termination
proof (relation "measure length")
  show "wf (measure length)" by simp
next
  fix s w :: string
  assume "find (startsWith s) whiteSpace = Some w"
  then have w: "w \<in> set whiteSpace" "take (length w) s = w"
    by (auto simp: find_Some_iff startsWith_def)
  have "length (take (length w) s) = min (length w) (length s)" by simp
  then have "length w \<le> length s" by (simp only: w(2))
  moreover have "w \<noteq> []" using w(1) by (auto simp: whiteSpace_def)
  ultimately show "(drop (length w) s, s) \<in> measure length" by (cases w) auto
qed

function trimEnd :: "string \<Rightarrow> string" where
  "trimEnd s =
     (case find (endsWith s) whiteSpace of
        None \<Rightarrow> s
      | Some w \<Rightarrow> trimEnd (take (length s - length w) s))"
  by pat_completeness auto
termination
proof (relation "measure length")
  show "wf (measure length)" by simp
next
  fix s w :: string
  assume "find (endsWith s) whiteSpace = Some w"
  then have w: "w \<in> set whiteSpace" "length w \<le> length s"
    by (auto simp: find_Some_iff endsWith_def)
  have "w \<noteq> []" using w(1) by (auto simp: whiteSpace_def)
  with w(2) show "(take (length s - length w) s, s) \<in> measure length" by (cases w) auto
qed

declare trimStart.simps [simp del] trimEnd.simps [simp del]

definition trim :: "string \<Rightarrow> string" where
  "trim s = trimEnd (trimStart s)"

text \<open>
  \<open>String.prototype.toLowerCase\<close> goes by the case mapping of Unicode, a table of the
  platform. On a string of ASCII characters it maps \<open>A\<close> to \<open>Z\<close> to \<open>a\<close> to \<open>z\<close> and keeps the
  rest; on every other string the result is read from the table, the argument
  \<open>unicodeLower\<close>.
\<close>

definition isAscii :: "char \<Rightarrow> bool" where
  "isAscii c = ((of_char c :: nat) < 128)"

definition toLowerChar :: "char \<Rightarrow> char" where
  "toLowerChar c =
     (if 65 \<le> (of_char c :: nat) \<and> (of_char c :: nat) \<le> 90
      then char_of ((of_char c :: nat) + 32) else c)"

definition toLowerCase :: "(string \<Rightarrow> string) \<Rightarrow> string \<Rightarrow> string" where
  "toLowerCase unicodeLower s =
     (if list_all isAscii s then map toLowerChar s else unicodeLower s)"

text \<open>\<open>a || b\<close> where \<open>a\<close> is \<open>string | undefined\<close>: the empty string is falsy.\<close>

definition orElse :: "string option \<Rightarrow> string \<Rightarrow> string" where
  "orElse a b = (case a of None \<Rightarrow> b | Some s \<Rightarrow> if s = [] then b else s)"

text \<open>\<open>a || undefined\<close>: a falsy string becomes \<open>undefined\<close>.\<close>

definition orUndefined :: "string option \<Rightarrow> string option" where
  "orUndefined a = (case a of None \<Rightarrow> None | Some s \<Rightarrow> if s = [] then None else Some s)"

text \<open>\<open>Array.prototype.findIndex\<close>; \<open>None\<close> stands for the result \<open>-1\<close>.\<close>

fun findIndex :: "('a \<Rightarrow> bool) \<Rightarrow> 'a list \<Rightarrow> nat option" where
  "findIndex P [] = None"
| "findIndex P (x # xs) =
     (if P x then Some 0 else (case findIndex P xs of None \<Rightarrow> None | Some i \<Rightarrow> Some (Suc i)))"

section \<open>Data model (types.ts)\<close>

record VideoItem =
  v_id :: string
  v_url :: string
  v_videoId :: "string option"
  v_title :: "string option"
  v_thumbnailUrl :: "string option"
  v_sourceTitle :: "string option"
  v_tags :: "string list"
  v_addedAt :: int

record Playlist =
  p_id :: string
  p_name :: string
  p_createdAt :: int
  p_items :: "VideoItem list"

record StoredStateV1 =
  version :: nat
  selectedPlaylistId :: string
  playlists :: "Playlist list"

text \<open>
  \<open>Partial<VideoItem>\<close>: \<open>None\<close> is a key the patch does not have. For an optional field
  of \<open>VideoItem\<close> the patch may carry the key with the value \<open>undefined\<close>, which is
  \<open>Some None\<close>.
\<close>

record VideoPatch =
  pt_id :: "string option"
  pt_url :: "string option"
  pt_videoId :: "string option option"
  pt_title :: "string option option"
  pt_thumbnailUrl :: "string option option"
  pt_sourceTitle :: "string option option"
  pt_tags :: "string list option"
  pt_addedAt :: "int option"

text \<open>The spread \<open>{ ...v, ...patch }\<close>.\<close>

definition applyPatch :: "VideoItem \<Rightarrow> VideoPatch \<Rightarrow> VideoItem" where
  "applyPatch v pt =
     \<lparr> v_id = (case pt_id pt of None \<Rightarrow> v_id v | Some x \<Rightarrow> x),
       v_url = (case pt_url pt of None \<Rightarrow> v_url v | Some x \<Rightarrow> x),
       v_videoId = (case pt_videoId pt of None \<Rightarrow> v_videoId v | Some x \<Rightarrow> x),
       v_title = (case pt_title pt of None \<Rightarrow> v_title v | Some x \<Rightarrow> x),
       v_thumbnailUrl = (case pt_thumbnailUrl pt of None \<Rightarrow> v_thumbnailUrl v | Some x \<Rightarrow> x),
       v_sourceTitle = (case pt_sourceTitle pt of None \<Rightarrow> v_sourceTitle v | Some x \<Rightarrow> x),
       v_tags = (case pt_tags pt of None \<Rightarrow> v_tags v | Some x \<Rightarrow> x),
       v_addedAt = (case pt_addedAt pt of None \<Rightarrow> v_addedAt v | Some x \<Rightarrow> x) \<rparr>"

section \<open>Identifier generator (id.ts)\<close>

text \<open>
  \<open>newId(prefix)\<close> is the prefix, an underscore and a random part. The random part is an
  argument of the model: \<open>crypto.randomUUID()\<close>, or the time and \<open>Math.random()\<close> in hex.
\<close>

definition newId :: "string \<Rightarrow> string \<Rightarrow> string" where
  "newId prefix r = prefix @ ''_'' @ r"

section \<open>State store (storage.ts)\<close>

definition favoritesName :: string where
  "favoritesName = [CHR 0xEC, CHR 0xA6, CHR 0x90, CHR 0xEA, CHR 0xB2, CHR 0xA8,
                    CHR 0xEC, CHR 0xB0, CHR 0xBE, CHR 0xEA, CHR 0xB8, CHR 0xB0]"

text \<open>\<open>defaultState()\<close> reads the clock and mints one identifier: both are arguments.\<close>

definition defaultState :: "int \<Rightarrow> string \<Rightarrow> StoredStateV1" where
  "defaultState now r =
     (let fav = \<lparr> p_id = newId ''pl'' r, p_name = favoritesName, p_createdAt = now, p_items = [] \<rparr>
      in \<lparr> version = 1, selectedPlaylistId = p_id fav, playlists = [fav] \<rparr>)"

definition upsertPlaylist :: "StoredStateV1 \<Rightarrow> Playlist \<Rightarrow> StoredStateV1" where
  "upsertPlaylist state playlist =
     (case findIndex (\<lambda>p. p_id p = p_id playlist) (playlists state) of
        Some idx \<Rightarrow> state\<lparr> playlists := (playlists state)[idx := playlist] \<rparr>
      | None \<Rightarrow> state\<lparr> playlists := playlist # playlists state \<rparr>)"

definition deletePlaylist :: "int \<Rightarrow> string \<Rightarrow> StoredStateV1 \<Rightarrow> string \<Rightarrow> StoredStateV1" where
  "deletePlaylist now r state playlistId =
     (let pls = filter (\<lambda>p. p_id p \<noteq> playlistId) (playlists state) in
      case pls of
        [] \<Rightarrow> defaultState now r
      | p0 # _ \<Rightarrow>
          state\<lparr> playlists := pls,
                 selectedPlaylistId :=
                   (if selectedPlaylistId state = playlistId then p_id p0
                    else selectedPlaylistId state) \<rparr>)"

text \<open>The local \<open>videoKey\<close> of \<open>addVideoToPlaylist\<close>: \<open>item.videoId || item.url.trim()\<close>.\<close>

definition videoKey :: "VideoItem \<Rightarrow> string" where
  "videoKey item = orElse (v_videoId item) (trim (v_url item))"

text \<open>The key the stored items are compared by: \<open>v.videoId || v.url\<close>.\<close>

definition storedKey :: "VideoItem \<Rightarrow> string" where
  "storedKey v = orElse (v_videoId v) (v_url v)"

definition addVideoToPlaylist :: "StoredStateV1 \<Rightarrow> string \<Rightarrow> VideoItem \<Rightarrow> StoredStateV1" where
  "addVideoToPlaylist state playlistId item =
     (case find (\<lambda>p. p_id p = playlistId) (playlists state) of
        None \<Rightarrow> state
      | Some pl \<Rightarrow>
          if list_ex (\<lambda>v. storedKey v = videoKey item) (p_items pl) then state
          else upsertPlaylist state (pl\<lparr> p_items := item # p_items pl \<rparr>))"

definition removeVideoFromPlaylist :: "StoredStateV1 \<Rightarrow> string \<Rightarrow> string \<Rightarrow> StoredStateV1" where
  "removeVideoFromPlaylist state playlistId videoItemId =
     (case find (\<lambda>p. p_id p = playlistId) (playlists state) of
        None \<Rightarrow> state
      | Some pl \<Rightarrow>
          upsertPlaylist state (pl\<lparr> p_items := filter (\<lambda>v. v_id v \<noteq> videoItemId) (p_items pl) \<rparr>))"

definition updateVideoInPlaylist ::
  "StoredStateV1 \<Rightarrow> string \<Rightarrow> string \<Rightarrow> VideoPatch \<Rightarrow> StoredStateV1" where
  "updateVideoInPlaylist state playlistId videoItemId patch =
     (case find (\<lambda>p. p_id p = playlistId) (playlists state) of
        None \<Rightarrow> state
      | Some pl \<Rightarrow>
          upsertPlaylist state
            (pl\<lparr> p_items := map (\<lambda>v. if v_id v = videoItemId then applyPatch v patch else v)
                                (p_items pl) \<rparr>))"

definition moveVideo :: "StoredStateV1 \<Rightarrow> string \<Rightarrow> string \<Rightarrow> string \<Rightarrow> StoredStateV1" where
  "moveVideo state fromPlaylistId toPlaylistId videoItemId =
     (if fromPlaylistId = toPlaylistId then state
      else case find (\<lambda>p. p_id p = fromPlaylistId) (playlists state) of
        None \<Rightarrow> state
      | Some from \<Rightarrow>
         (case find (\<lambda>p. p_id p = toPlaylistId) (playlists state) of
            None \<Rightarrow> state
          | Some to \<Rightarrow>
             (case find (\<lambda>v. v_id v = videoItemId) (p_items from) of
                None \<Rightarrow> state
              | Some item \<Rightarrow>
                  addVideoToPlaylist
                    (removeVideoFromPlaylist state fromPlaylistId videoItemId)
                    toPlaylistId item)))"

text \<open>
  The collection invariant of the data model: there is a playlist, and the selected
  identifier is the identifier of one of the playlists.
\<close>

definition collectionInvariant :: "StoredStateV1 \<Rightarrow> bool" where
  "collectionInvariant s =
     (playlists s \<noteq> [] \<and> list_ex (\<lambda>p. p_id p = selectedPlaylistId s) (playlists s))"

subsection \<open>Which object an operation returns\<close>

text \<open>
  An operation either executes \<open>return state\<close>, handing back the very object it was
  given, or returns an object it has built (an object literal, or the result of
  \<open>upsertPlaylist\<close>, which always builds one). \<open>SameRef\<close> is the first case and \<open>NewObj\<close>
  the second, with the content of the new object.
\<close>

datatype 'a returned = SameRef | NewObj 'a

definition deref :: "'a \<Rightarrow> 'a returned \<Rightarrow> 'a" where
  "deref state r = (case r of SameRef \<Rightarrow> state | NewObj s \<Rightarrow> s)"

definition upsertPlaylistR :: "StoredStateV1 \<Rightarrow> Playlist \<Rightarrow> StoredStateV1 returned" where
  "upsertPlaylistR state playlist = NewObj (upsertPlaylist state playlist)"

definition deletePlaylistR ::
  "int \<Rightarrow> string \<Rightarrow> StoredStateV1 \<Rightarrow> string \<Rightarrow> StoredStateV1 returned" where
  "deletePlaylistR now r state playlistId = NewObj (deletePlaylist now r state playlistId)"

definition addVideoToPlaylistR ::
  "StoredStateV1 \<Rightarrow> string \<Rightarrow> VideoItem \<Rightarrow> StoredStateV1 returned" where
  "addVideoToPlaylistR state playlistId item =
     (case find (\<lambda>p. p_id p = playlistId) (playlists state) of
        None \<Rightarrow> SameRef
      | Some pl \<Rightarrow>
          if list_ex (\<lambda>v. storedKey v = videoKey item) (p_items pl) then SameRef
          else upsertPlaylistR state (pl\<lparr> p_items := item # p_items pl \<rparr>))"

definition removeVideoFromPlaylistR ::
  "StoredStateV1 \<Rightarrow> string \<Rightarrow> string \<Rightarrow> StoredStateV1 returned" where
  "removeVideoFromPlaylistR state playlistId videoItemId =
     (case find (\<lambda>p. p_id p = playlistId) (playlists state) of
        None \<Rightarrow> SameRef
      | Some pl \<Rightarrow>
          upsertPlaylistR state
            (pl\<lparr> p_items := filter (\<lambda>v. v_id v \<noteq> videoItemId) (p_items pl) \<rparr>))"

definition updateVideoInPlaylistR ::
  "StoredStateV1 \<Rightarrow> string \<Rightarrow> string \<Rightarrow> VideoPatch \<Rightarrow> StoredStateV1 returned" where
  "updateVideoInPlaylistR state playlistId videoItemId patch =
     (case find (\<lambda>p. p_id p = playlistId) (playlists state) of
        None \<Rightarrow> SameRef
      | Some pl \<Rightarrow>
          upsertPlaylistR state
            (pl\<lparr> p_items := map (\<lambda>v. if v_id v = videoItemId then applyPatch v patch else v)
                                (p_items pl) \<rparr>))"

text \<open>
  \<open>moveVideo\<close> rebinds \<open>next\<close> twice; the object it returns is the one it was given only
  if neither call built a new one.
\<close>

definition moveVideoR ::
  "StoredStateV1 \<Rightarrow> string \<Rightarrow> string \<Rightarrow> string \<Rightarrow> StoredStateV1 returned" where
  "moveVideoR state fromPlaylistId toPlaylistId videoItemId =
     (if fromPlaylistId = toPlaylistId then SameRef
      else case find (\<lambda>p. p_id p = fromPlaylistId) (playlists state) of
        None \<Rightarrow> SameRef
      | Some from \<Rightarrow>
         (case find (\<lambda>p. p_id p = toPlaylistId) (playlists state) of
            None \<Rightarrow> SameRef
          | Some to \<Rightarrow>
             (case find (\<lambda>v. v_id v = videoItemId) (p_items from) of
                None \<Rightarrow> SameRef
              | Some item \<Rightarrow>
                 (let r1 = removeVideoFromPlaylistR state fromPlaylistId videoItemId;
                      next1 = deref state r1;
                      r2 = addVideoToPlaylistR next1 toPlaylistId item
                  in if r1 = SameRef \<and> r2 = SameRef then SameRef
                     else NewObj (deref next1 r2)))))"

section \<open>Import by merging (the merge branch of the import handler of App)\<close>

text \<open>The label of a decoded playlist without a name, in UTF-8.\<close>

definition importedLabel :: string where
  "importedLabel = [CHR 0xEA, CHR 0xB0, CHR 0x80, CHR 0xEC, CHR 0xA0, CHR 0xB8, CHR 0xEC, CHR 0x98,
                    CHR 0xA8, CHR 0x20, CHR 0xEB, CHR 0xAA, CHR 0xA9, CHR 0xEB, CHR 0xA1, CHR 0x9D]"

text \<open>A number in a template literal: its decimal digits.\<close>

definition digitChar :: "nat \<Rightarrow> char" where
  "digitChar d = char_of (48 + d)"

fun showNat :: "nat \<Rightarrow> string" where
  "showNat n = (if n < 10 then [digitChar n] else showNat (n div 10) @ [digitChar (n mod 10)])"

declare showNat.simps [simp del]

text \<open>Reading the digits back, used to show that \<open>showNat\<close> is injective.\<close>

definition readNat :: "string \<Rightarrow> nat" where
  "readNat s = foldl (\<lambda>acc c. acc * 10 + (of_char c - 48)) 0 s"

text \<open>\<open>name.trim().toLowerCase()\<close>\<close>

definition normName :: "(string \<Rightarrow> string) \<Rightarrow> string \<Rightarrow> string" where
  "normName unicodeLower s = toLowerCase unicodeLower (trim s)"

text \<open>The key the loop tests: the template literal with \<open>k\<close> and the counter \<open>i\<close>.\<close>

definition candidate :: "string \<Rightarrow> nat \<Rightarrow> string" where
  "candidate k i = k @ '' ('' @ showNat i @ '')''"

text \<open>
  \<open>while (existingNames.has(...)) i++\<close>, from the value of \<open>i\<close> on. The set of names is
  the list of its elements.
\<close>

function findFree :: "string list \<Rightarrow> string \<Rightarrow> nat \<Rightarrow> nat" where
  "findFree names k i = (if candidate k i \<in> set names then findFree names k (Suc i) else i)"
  by pat_completeness auto

text \<open>\<open>p.name || label\<close>\<close>

definition baseName :: "Playlist \<Rightarrow> string" where
  "baseName p = (if p_name p = [] then importedLabel else p_name p)"

text \<open>The callback of \<open>imported.playlists.map\<close>: the renamed playlist and the names after it.\<close>

definition renameImported ::
  "(string \<Rightarrow> string) \<Rightarrow> string list \<Rightarrow> Playlist \<Rightarrow> Playlist \<times> string list" where
  "renameImported unicodeLower names p =
     (let base = baseName p; k = normName unicodeLower base in
      if k \<in> set names then
        (let i = findFree names k 2;
             name = base @ '' ('' @ showNat i @ '')''
         in (p\<lparr> p_name := name \<rparr>, List.insert (normName unicodeLower name) names))
      else (p\<lparr> p_name := base \<rparr>, List.insert k names))"

fun mergeNames :: "(string \<Rightarrow> string) \<Rightarrow> string list \<Rightarrow> Playlist list \<Rightarrow> Playlist list" where
  "mergeNames unicodeLower names [] = []"
| "mergeNames unicodeLower names (p # ps) =
     (case renameImported unicodeLower names p of
        (p', names') \<Rightarrow> p' # mergeNames unicodeLower names' ps)"

text \<open>\<open>state.playlists[0]!.id\<close> throws on an empty list: \<open>None\<close>.\<close>

definition pickDefaultPlaylistId :: "StoredStateV1 \<Rightarrow> string option" where
  "pickDefaultPlaylistId state =
     (if list_ex (\<lambda>p. p_id p = selectedPlaylistId state) (playlists state)
      then Some (selectedPlaylistId state)
      else (case playlists state of [] \<Rightarrow> None | p0 # _ \<Rightarrow> Some (p_id p0)))"

definition applyImportMerge ::
  "(string \<Rightarrow> string) \<Rightarrow> StoredStateV1 \<Rightarrow> StoredStateV1 \<Rightarrow> StoredStateV1 option" where
  "applyImportMerge unicodeLower state imported =
     (let existingNames = remdups (map (\<lambda>p. normName unicodeLower (p_name p)) (playlists state));
          merged = mergeNames unicodeLower existingNames (playlists imported);
          next = \<lparr> version = 1, selectedPlaylistId = selectedPlaylistId state,
                   playlists = playlists state @ merged \<rparr>
      in case pickDefaultPlaylistId next of
           None \<Rightarrow> None
         | Some sel \<Rightarrow> Some (next\<lparr> selectedPlaylistId := sel \<rparr>))"

text \<open>
  The replace branch of the same handler. \<open>imported.playlists[0]?.id || state.selectedPlaylistId\<close>
  takes the current selection when there is no imported playlist or its identifier is empty.
\<close>

definition applyImportReplace :: "StoredStateV1 \<Rightarrow> StoredStateV1 \<Rightarrow> StoredStateV1 option" where
  "applyImportReplace state imported =
     (let fixed = \<lparr> version = 1,
                    selectedPlaylistId =
                      (case playlists imported of
                         [] \<Rightarrow> selectedPlaylistId state
                       | p0 # _ \<Rightarrow> if p_id p0 = [] then selectedPlaylistId state else p_id p0),
                    playlists =
                      (if playlists imported \<noteq> [] then playlists imported else playlists state) \<rparr>
      in case pickDefaultPlaylistId fixed of
           None \<Rightarrow> None
         | Some sel \<Rightarrow> Some (fixed\<lparr> selectedPlaylistId := sel \<rparr>))"

datatype importMode = Replace | Merge

text \<open>The handler \<open>onApply\<close>: the collection it passes to \<open>setState\<close>.\<close>

definition onApply ::
  "(string \<Rightarrow> string) \<Rightarrow> importMode \<Rightarrow> StoredStateV1 \<Rightarrow> StoredStateV1 \<Rightarrow> StoredStateV1 option" where
  "onApply unicodeLower mode state imported =
     (case mode of
        Replace \<Rightarrow> applyImportReplace state imported
      | Merge \<Rightarrow> applyImportMerge unicodeLower state imported)"

definition ex_playlist :: "string \<Rightarrow> string \<Rightarrow> Playlist" where
  "ex_playlist i n = \<lparr> p_id = i, p_name = n, p_createdAt = 3, p_items = [] \<rparr>"

section \<open>URL normaliser (youtube.ts)\<close>

text \<open>
  The \<open>URL\<close> class of the platform is not part of the repository. A URL object is a value of
  a type \<open>'u\<close>, and the operations the normaliser calls are the fields of a record.
\<close>

record 'u urlLib =
  parseURL :: "string \<Rightarrow> 'u option"
  href :: "'u \<Rightarrow> string"
  hostname :: "'u \<Rightarrow> string"
  pathname :: "'u \<Rightarrow> string"
  searchParams :: "'u \<Rightarrow> (string \<times> string) list"
  spDelete :: "string \<Rightarrow> 'u \<Rightarrow> 'u"

record NormalizedUrl =
  n_url :: string
  n_videoId :: "string option"

text \<open>\<open>s.replace(/^www\./, "")\<close>\<close>

definition stripWww :: "string \<Rightarrow> string" where
  "stripWww h = (if take 4 h = ''www.'' then drop 4 h else h)"

text \<open>\<open>s.split(c)\<close> for a separator of one character.\<close>

fun splitOn :: "char \<Rightarrow> string \<Rightarrow> string list" where
  "splitOn c [] = [[]]"
| "splitOn c (x # xs) =
     (if x = c then [] # splitOn c xs
      else (case splitOn c xs of [] \<Rightarrow> [[x]] | w # ws \<Rightarrow> (x # w) # ws))"

text \<open>\<open>xs[i]\<close> followed by \<open>if (id)\<close>: an element out of range or empty counts as absent.\<close>

definition truthyAt :: "string list \<Rightarrow> nat \<Rightarrow> string option" where
  "truthyAt xs i = (if i < length xs \<and> xs ! i \<noteq> [] then Some (xs ! i) else None)"

text \<open>\<open>searchParams.get(k)\<close>: the value of the first pair with the name.\<close>

definition spGet :: "(string \<times> string) list \<Rightarrow> string \<Rightarrow> string option" where
  "spGet ps k = map_option snd (find (\<lambda>p. fst p = k) ps)"

definition keep :: "string list" where
  "keep = [''v'', ''t'', ''start'', ''list'', ''index'', ''si'']"

text \<open>The identifier the two \<open>if\<close> blocks on the host leave in \<open>videoId\<close>.\<close>

definition extractVideoId :: "'u urlLib \<Rightarrow> 'u \<Rightarrow> string option" where
  "extractVideoId L url =
     (let host = stripWww (hostname L url);
          videoId1 =
            (if host = ''youtu.be''
             then truthyAt (filter (\<lambda>seg. seg \<noteq> []) (splitOn CHR ''/'' (pathname L url))) 0
             else None)
      in if host = ''youtube.com'' \<or> host = ''m.youtube.com'' \<or> host = ''music.youtube.com''
         then (if pathname L url = ''/watch''
               then (case orUndefined (spGet (searchParams L url) ''v'') of
                       Some i \<Rightarrow> Some i | None \<Rightarrow> videoId1)
               else if startsWith (pathname L url) ''/shorts/''
               then (case truthyAt (splitOn CHR ''/'' (pathname L url)) 2 of
                       Some i \<Rightarrow> Some i | None \<Rightarrow> videoId1)
               else if startsWith (pathname L url) ''/embed/''
               then (case truthyAt (splitOn CHR ''/'' (pathname L url)) 2 of
                       Some i \<Rightarrow> Some i | None \<Rightarrow> videoId1)
               else videoId1)
         else videoId1)"

text \<open>
  The loop over a copy of the keys that deletes every parameter outside the list.
\<close>

definition cleanParams :: "'u urlLib \<Rightarrow> 'u \<Rightarrow> 'u" where
  "cleanParams L cleaned =
     foldl (\<lambda>c k. if k \<in> set keep then c else spDelete L k c) cleaned
       (map fst (searchParams L cleaned))"

text \<open>
  \<open>normalizeYouTubeUrl\<close>. The first \<open>new URL\<close> is inside \<open>try\<close>; the second one is not, and
  \<open>None\<close> is the exception it would throw.
\<close>

definition normalizeYouTubeUrl :: "'u urlLib \<Rightarrow> string \<Rightarrow> NormalizedUrl option" where
  "normalizeYouTubeUrl L input =
     (let trimmed = trim input in
      case parseURL L trimmed of
        None \<Rightarrow> Some \<lparr> n_url = trimmed, n_videoId = None \<rparr>
      | Some url \<Rightarrow>
          (let videoId = extractVideoId L url in
           case parseURL L (href L url) of
             None \<Rightarrow> None
           | Some cleaned \<Rightarrow>
               Some \<lparr> n_url = href L (cleanParams L cleaned), n_videoId = videoId \<rparr>))"

text \<open>
  What the proof of idempotence asks of the platform: the text of a URL object has no white
  space around it and parses to that object; deleting a parameter removes the pairs with the
  name and leaves the host and the path.
\<close>

definition urlLaws :: "'u urlLib \<Rightarrow> bool" where
  "urlLaws L =
     ((\<forall>u. parseURL L (href L u) = Some u) \<and>
      (\<forall>u. trim (href L u) = href L u) \<and>
      (\<forall>k u. searchParams L (spDelete L k u) = filter (\<lambda>p. fst p \<noteq> k) (searchParams L u)) \<and>
      (\<forall>k u. hostname L (spDelete L k u) = hostname L u) \<and>
      (\<forall>k u. pathname L (spDelete L k u) = pathname L u))"

section \<open>Share codec (share.ts)\<close>

datatype json = JNull | JBool bool | JNum int | JStr string | JArr "json list"
  | JObj "(string \<times> json) list"

text \<open>Truthiness of a parsed value, for \<open>!x\<close> and \<open>x || y\<close>.\<close>

fun truthy :: "json \<Rightarrow> bool" where
  "truthy JNull = False"
| "truthy (JBool b) = b"
| "truthy (JNum n) = (n \<noteq> 0)"
| "truthy (JStr s) = (s \<noteq> [])"
| "truthy (JArr xs) = True"
| "truthy (JObj kvs) = True"

text \<open>
  Reading one of the properties \<open>v p n c i u y t g a h\<close> of a value that is not \<open>null\<close>:
  an object has the properties of its list, every other value has none of them
  (\<open>None\<close> is \<open>undefined\<close>). Reading a property of \<open>null\<close> throws and is handled where it
  occurs.
\<close>

fun getProp :: "json \<Rightarrow> string \<Rightarrow> json option" where
  "getProp (JObj kvs) k = map_of kvs k"
| "getProp _ k = None"

text \<open>
  The platform and \<open>pako\<close>: \<open>JSON\<close>, \<open>TextEncoder\<close> and \<open>TextDecoder\<close>, raw deflate, and
  \<open>btoa\<close> and \<open>atob\<close> on byte strings. \<open>None\<close> is an exception.
\<close>

record wireLib =
  JSON_stringify :: "json \<Rightarrow> string"
  JSON_parse :: "string \<Rightarrow> json option"
  toUtf8Bytes :: "string \<Rightarrow> string"
  fromUtf8Bytes :: "string \<Rightarrow> string"
  deflateRaw :: "string \<Rightarrow> string"
  inflateRaw :: "string \<Rightarrow> string option"
  btoa :: "string \<Rightarrow> string"
  atob :: "string \<Rightarrow> string option"




definition fromBase64 :: "wireLib \<Rightarrow> string \<Rightarrow> string option" where
  "fromBase64 L b64 = atob L b64"


definition base64UrlDecode :: "wireLib \<Rightarrow> string \<Rightarrow> string option" where
  "base64UrlDecode L s =
     fromBase64 L
       (map (\<lambda>c. if c = CHR ''_'' then CHR ''/'' else c)
          (map (\<lambda>c. if c = CHR ''-'' then CHR ''+'' else c) s)
        @ drop ((length s + 3) mod 4) ''==='')"









text \<open>
  What a call of \<open>decodeShareToState\<close> can end in other than a state. \<open>ErrEmpty\<close> is thrown
  by the import dialog, not by the decoder. The last one is not an exception: the payload
  does not have the type \<open>ShareStateV1\<close> it is cast to, and the object that JavaScript
  returns is not a \<open>StoredStateV1\<close>.
\<close>

datatype decodeFailure =
  ErrUnsupported | ErrBase64 | ErrInflate | ErrJson | ErrInvalid | ErrType | ErrEmpty | Untyped

text \<open>
  The characters that \<open>.\<close> of a regular expression does not match: the line terminators
  U+000A, U+000D, U+2028 and U+2029.
\<close>

definition lineTerminators :: "string list" where
  "lineTerminators =
     [[CHR 0x0A], [CHR 0x0D], [CHR 0xE2, CHR 0x80, CHR 0xA8], [CHR 0xE2, CHR 0x80, CHR 0xA9]]"

fun hasLineTerminator :: "string \<Rightarrow> bool" where
  "hasLineTerminator [] = False"
| "hasLineTerminator (c # cs) =
     (list_ex (startsWith (c # cs)) lineTerminators \<or> hasLineTerminator cs)"

text \<open>
  \<open>s.match(/^v1\.(.+)$/)\<close>: the text after the prefix, which must not be empty and must run
  to the end of the string without a line terminator.
\<close>

definition matchToken :: "string \<Rightarrow> string option" where
  "matchToken s =
     (if startsWith s ''v1.'' \<and> drop 3 s \<noteq> [] \<and> \<not> hasLineTerminator (drop 3 s)
      then Some (drop 3 s) else None)"

text \<open>Lines 97 to 99: base64url, inflate, decode, parse.\<close>

definition unpack :: "wireLib \<Rightarrow> string \<Rightarrow> decodeFailure + json" where
  "unpack L data =
     (case base64UrlDecode L data of
        None \<Rightarrow> Inl ErrBase64
      | Some bytes \<Rightarrow>
         (case inflateRaw L bytes of
            None \<Rightarrow> Inl ErrInflate
          | Some inflated \<Rightarrow>
             (case JSON_parse L (fromUtf8Bytes L inflated) of
                None \<Rightarrow> Inl ErrJson
              | Some payload \<Rightarrow> Inr payload)))"

text \<open>
  Results of the elements of a \<open>map\<close> whose callback may throw: an exception anywhere wins
  over a value of the wrong type, which is only stored.
\<close>

fun collect :: "(decodeFailure + 'a) list \<Rightarrow> decodeFailure + 'a list" where
  "collect [] = Inr []"
| "collect (Inl e # rs) =
     (if e = ErrType then Inl ErrType
      else (case collect rs of Inl ErrType \<Rightarrow> Inl ErrType | _ \<Rightarrow> Inl Untyped))"
| "collect (Inr x # rs) = (case collect rs of Inl e \<Rightarrow> Inl e | Inr xs \<Rightarrow> Inr (x # xs))"

text \<open>A field read into a place of type \<open>string | undefined\<close>.\<close>

definition optString :: "json option \<Rightarrow> decodeFailure + string option" where
  "optString v = (case v of None \<Rightarrow> Inr None | Some (JStr s) \<Rightarrow> Inr (Some s) | Some _ \<Rightarrow> Inl Untyped)"

text \<open>\<open>x || now\<close> into a place of type \<open>number\<close>.\<close>

definition numberOr :: "json option \<Rightarrow> int \<Rightarrow> decodeFailure + int" where
  "numberOr v now =
     (case v of None \<Rightarrow> Inr now
      | Some j \<Rightarrow> if \<not> truthy j then Inr now
                  else (case j of JNum n \<Rightarrow> Inr n | _ \<Rightarrow> Inl Untyped))"

text \<open>\<open>x || label\<close> into a place of type \<open>string\<close>.\<close>

definition stringOr :: "json option \<Rightarrow> string \<Rightarrow> decodeFailure + string" where
  "stringOr v d =
     (case v of None \<Rightarrow> Inr d
      | Some j \<Rightarrow> if \<not> truthy j then Inr d
                  else (case j of JStr s \<Rightarrow> Inr s | _ \<Rightarrow> Inl Untyped))"

fun asString :: "json \<Rightarrow> decodeFailure + string" where
  "asString (JStr s) = Inr s"
| "asString _ = Inl Untyped"

text \<open>\<open>it.g || []\<close> into a place of type \<open>string[]\<close>.\<close>

definition tagsOr :: "json option \<Rightarrow> decodeFailure + string list" where
  "tagsOr v =
     (case v of None \<Rightarrow> Inr []
      | Some j \<Rightarrow> if \<not> truthy j then Inr []
                  else (case j of JArr xs \<Rightarrow> collect (map asString xs) | _ \<Rightarrow> Inl Untyped))"

text \<open>The callback of the inner \<open>map\<close>, with the random part of the identifier it mints.\<close>

definition decodeItem :: "int \<Rightarrow> string \<Rightarrow> json \<Rightarrow> decodeFailure + VideoItem" where
  "decodeItem now r it =
     (if it = JNull then Inl ErrType
      else case (case getProp it ''u'' of Some (JStr s) \<Rightarrow> Inr s | _ \<Rightarrow> Inl Untyped) of
        Inl e \<Rightarrow> Inl e
      | Inr url \<Rightarrow>
        (case optString (getProp it ''y'') of Inl e \<Rightarrow> Inl e | Inr videoId \<Rightarrow>
         (case optString (getProp it ''t'') of Inl e \<Rightarrow> Inl e | Inr title \<Rightarrow>
          (case optString (getProp it ''h'') of Inl e \<Rightarrow> Inl e | Inr thumb \<Rightarrow>
           (case tagsOr (getProp it ''g'') of Inl e \<Rightarrow> Inl e | Inr tags \<Rightarrow>
            (case numberOr (getProp it ''a'') now of Inl e \<Rightarrow> Inl e | Inr addedAt \<Rightarrow>
               Inr \<lparr> v_id = newId ''v'' r, v_url = url, v_videoId = videoId, v_title = title,
                     v_thumbnailUrl = thumb, v_sourceTitle = None, v_tags = tags,
                     v_addedAt = addedAt \<rparr>))))))"

text \<open>
  \<open>(pl.i || []).map(...)\<close>: the elements to map over, or the exception of calling \<open>map\<close> on
  a value that has none.
\<close>

definition itemsOf :: "json \<Rightarrow> decodeFailure + json list" where
  "itemsOf pl =
     (if pl = JNull then Inl ErrType
      else case getProp pl ''i'' of
        None \<Rightarrow> Inr []
      | Some j \<Rightarrow> if \<not> truthy j then Inr []
                  else (case j of JArr its \<Rightarrow> Inr its | _ \<Rightarrow> Inl ErrType))"

text \<open>
  The callback of the outer \<open>map\<close>. The identifiers are minted in order: \<open>rnd n\<close> for the
  playlist, then \<open>rnd (n + 1)\<close> and so on for its items.
\<close>

definition decodePlaylist :: "int \<Rightarrow> (nat \<Rightarrow> string) \<Rightarrow> nat \<Rightarrow> json \<Rightarrow> decodeFailure + Playlist" where
  "decodePlaylist now rnd n pl =
     (case itemsOf pl of
        Inl e \<Rightarrow> Inl e
      | Inr its \<Rightarrow>
         (case collect (map (\<lambda>(k, it). decodeItem now (rnd (n + 1 + k)) it)
                          (zip [0..<length its] its)) of
            Inl e \<Rightarrow> Inl e
          | Inr items \<Rightarrow>
             (case stringOr (getProp pl ''n'') importedLabel of Inl e \<Rightarrow> Inl e | Inr name \<Rightarrow>
              (case numberOr (getProp pl ''c'') now of Inl e \<Rightarrow> Inl e | Inr createdAt \<Rightarrow>
                 Inr \<lparr> p_id = newId ''pl'' (rnd n), p_name = name, p_createdAt = createdAt,
                       p_items = items \<rparr>))))"

text \<open>The number of identifiers the callback mints for a playlist before it returns.\<close>

definition minted :: "json \<Rightarrow> nat" where
  "minted pl = (case itemsOf pl of Inl _ \<Rightarrow> 1 | Inr its \<Rightarrow> 1 + length its)"

fun decodePlaylists ::
  "int \<Rightarrow> (nat \<Rightarrow> string) \<Rightarrow> nat \<Rightarrow> json list \<Rightarrow> (decodeFailure + Playlist) list \<times> nat" where
  "decodePlaylists now rnd n [] = ([], n)"
| "decodePlaylists now rnd n (pl # pls) =
     (case decodePlaylists now rnd (n + minted pl) pls of
        (rs, m) \<Rightarrow> (decodePlaylist now rnd n pl # rs, m))"

text \<open>Lines 100 to 125, from the parsed payload on.\<close>

definition decodePayload :: "int \<Rightarrow> (nat \<Rightarrow> string) \<Rightarrow> json \<Rightarrow> decodeFailure + StoredStateV1" where
  "decodePayload now rnd payload =
     (if \<not> truthy payload \<or> getProp payload ''v'' \<noteq> Some (JNum 1) then Inl ErrInvalid
      else case getProp payload ''p'' of
        Some (JArr pls) \<Rightarrow>
          (case decodePlaylists now rnd 0 pls of
             (rs, m) \<Rightarrow>
               (case collect rs of
                  Inl e \<Rightarrow> Inl e
                | Inr ps \<Rightarrow>
                    Inr \<lparr> version = 1,
                          selectedPlaylistId =
                            (case ps of [] \<Rightarrow> newId ''pl'' (rnd m) | p0 # _ \<Rightarrow> p_id p0),
                          playlists = ps \<rparr>))
      | _ \<Rightarrow> Inl ErrInvalid)"

definition decodeShareToState ::
  "wireLib \<Rightarrow> int \<Rightarrow> (nat \<Rightarrow> string) \<Rightarrow> string \<Rightarrow> decodeFailure + StoredStateV1" where
  "decodeShareToState L now rnd encoded =
     (case matchToken (trim encoded) of
        None \<Rightarrow> Inl ErrUnsupported
      | Some data \<Rightarrow>
         (case unpack L data of
            Inl e \<Rightarrow> Inl e
          | Inr payload \<Rightarrow> decodePayload now rnd payload))"

text \<open>An exception leaves the call; a value of the wrong type does not.\<close>

definition raises :: "decodeFailure + 'a \<Rightarrow> bool" where
  "raises r = (case r of Inl e \<Rightarrow> e \<noteq> Untyped | Inr _ \<Rightarrow> False)"

text \<open>
  The body of \<open>try\<close> in the effect of \<open>ApplyImportModal\<close>: it decodes and throws on a result
  without playlists.
\<close>

definition previewImport ::
  "wireLib \<Rightarrow> int \<Rightarrow> (nat \<Rightarrow> string) \<Rightarrow> string \<Rightarrow> decodeFailure + StoredStateV1" where
  "previewImport L now rnd encoded =
     (case decodeShareToState L now rnd encoded of
        Inl e \<Rightarrow> Inl e
      | Inr decoded \<Rightarrow> if playlists decoded = [] then Inl ErrEmpty else Inr decoded)"

text \<open>
  The state of the dialog: \<open>imported\<close> and \<open>error\<close>. The effect sets both: after an
  exception nothing is kept to import and the message is shown. The dialog never writes the
  collection; only its two buttons reach \<open>onApply\<close>.
\<close>

record importDialog =
  d_imported :: "StoredStateV1 option"
  d_error :: string

definition importErrorText :: string where
  "importErrorText = 
     [CHR 0xEB, CHR 0xA7, CHR 0x81, CHR 0xED, CHR 0x81, CHR 0xAC, CHR 0x20, CHR 0xEB,
      CHR 0x8D, CHR 0xB0, CHR 0xEC, CHR 0x9D, CHR 0xB4, CHR 0xED, CHR 0x84, CHR 0xB0,
      CHR 0xEB, CHR 0xA5, CHR 0xBC, CHR 0x20, CHR 0xED, CHR 0x95, CHR 0xB4, CHR 0xEC,
      CHR 0x84, CHR 0x9D, CHR 0xED, CHR 0x95, CHR 0xA0, CHR 0x20, CHR 0xEC, CHR 0x88,
      CHR 0x98, CHR 0x20, CHR 0xEC, CHR 0x97, CHR 0x86, CHR 0xEC, CHR 0x96, CHR 0xB4,
      CHR 0xEC, CHR 0x9A, CHR 0x94, CHR 0x28, CHR 0xEC, CHR 0x86, CHR 0x90, CHR 0xEC,
      CHR 0x83, CHR 0x81, CHR 0x2F, CHR 0xEB, CHR 0xB2, CHR 0x84, CHR 0xEC, CHR 0xA0,
      CHR 0x84, CHR 0x20, CHR 0xEB, CHR 0xB6, CHR 0x88, CHR 0xEC, CHR 0x9D, CHR 0xBC,
      CHR 0xEC, CHR 0xB9, CHR 0x98, CHR 0x29, CHR 0x2E]"

definition applyImportEffect ::
  "wireLib \<Rightarrow> int \<Rightarrow> (nat \<Rightarrow> string) \<Rightarrow> string \<Rightarrow> decodeFailure + importDialog" where
  "applyImportEffect L now rnd encoded =
     (case previewImport L now rnd encoded of
        Inl e \<Rightarrow>
          if e = Untyped then Inl Untyped
          else Inr \<lparr> d_imported = None, d_error = importErrorText \<rparr>
      | Inr decoded \<Rightarrow> Inr \<lparr> d_imported = Some decoded, d_error = [] \<rparr>)"

text \<open>
  A click on one of the two buttons, \<open>imported && props.onApply(mode, imported)\<close>: the
  collection afterwards. The buttons are disabled while nothing is kept to import.
\<close>

definition clickApply ::
  "(string \<Rightarrow> string) \<Rightarrow> importMode \<Rightarrow> importDialog \<Rightarrow> StoredStateV1 \<Rightarrow> StoredStateV1 option" where
  "clickApply unicodeLower mode d state =
     (case d_imported d of
        None \<Rightarrow> Some state
      | Some imported \<Rightarrow> onApply unicodeLower mode state imported)"

text \<open>The elements of the playlist list on which the callback of \<open>map\<close> throws.\<close>

definition throwsOn :: "json \<Rightarrow> bool" where
  "throwsOn pl = (case itemsOf pl of Inl _ \<Rightarrow> True | Inr its \<Rightarrow> JNull \<in> set its)"










section \<open>Example states\<close>

definition ex_item :: "string \<Rightarrow> string \<Rightarrow> VideoItem" where
  "ex_item i u = \<lparr> v_id = i, v_url = u, v_videoId = None, v_title = None,
       v_thumbnailUrl = None, v_sourceTitle = None, v_tags = [], v_addedAt = 1 \<rparr>"

definition ex_state :: "VideoItem list \<Rightarrow> VideoItem list \<Rightarrow> StoredStateV1" where
  "ex_state xs ys = \<lparr> version = 1, selectedPlaylistId = ''A'',
      playlists = [\<lparr> p_id = ''A'', p_name = ''Music'', p_createdAt = 1, p_items = xs \<rparr>,
                   \<lparr> p_id = ''B'', p_name = ''Talks'', p_createdAt = 2, p_items = ys \<rparr>] \<rparr>"

definition ex_single :: StoredStateV1 where
  "ex_single = \<lparr> version = 1, selectedPlaylistId = ''A'',
      playlists = [\<lparr> p_id = ''A'', p_name = ''Music'', p_createdAt = 1, p_items = [] \<rparr>] \<rparr>"


definition ex_import :: "Playlist list \<Rightarrow> StoredStateV1" where
  "ex_import ps = \<lparr> version = 1, selectedPlaylistId = ''x'', playlists = ps \<rparr>"

text \<open>A platform with two URL objects, to run the normaliser on.\<close>

datatype ex_url = ExTracked | ExClean

definition ex_lib :: "ex_url urlLib" where
  "ex_lib = \<lparr>
     parseURL = (\<lambda>s. if s = ''https://youtu.be/abc?utm=1'' then Some ExTracked
                      else if s = ''https://youtu.be/abc'' then Some ExClean else None),
     href = (\<lambda>u. case u of ExTracked \<Rightarrow> ''https://youtu.be/abc?utm=1''
                          | ExClean \<Rightarrow> ''https://youtu.be/abc''),
     hostname = (\<lambda>u. ''youtu.be''),
     pathname = (\<lambda>u. ''/abc''),
     searchParams = (\<lambda>u. case u of ExTracked \<Rightarrow> [(''utm'', ''1'')] | ExClean \<Rightarrow> []),
     spDelete = (\<lambda>k u. if k = ''utm'' then ExClean else u) \<rparr>"

text \<open>
  A platform to run the codec on: every payload is written as the text \<open>j\<close>, which deflates
  to itself and whose base64 is \<open>ag==\<close>, and \<open>j\<close> parses to the payload given.
\<close>

definition ex_wire :: "json \<Rightarrow> wireLib" where
  "ex_wire payload = \<lparr>
     JSON_stringify = (\<lambda>j. ''j''),
     JSON_parse = (\<lambda>s. if s = ''j'' then Some payload else None),
     toUtf8Bytes = (\<lambda>s. s),
     fromUtf8Bytes = (\<lambda>b. b),
     deflateRaw = (\<lambda>b. b),
     inflateRaw = (\<lambda>b. Some b),
     btoa = (\<lambda>b. ''ag==''),
     atob = (\<lambda>s. if s = ''ag=='' then Some ''j'' else None) \<rparr>"

definition ex_empty_payload :: json where
  "ex_empty_payload = JObj [(''v'', JNum 1), (''p'', JArr [])]"

definition ex_null_payload :: json where
  "ex_null_payload = JObj [(''v'', JNum 1), (''p'', JArr [JNull])]"



section \<open>Properties of the string functions\<close>

lemma whiteSpace_nonempty: "w \<in> set whiteSpace \<Longrightarrow> w \<noteq> []"
  by (auto simp: whiteSpace_def)

lemma whiteSpace_bytes:
  "w \<in> set whiteSpace \<Longrightarrow> c \<in> set w \<Longrightarrow> (of_char c :: nat) \<le> 32 \<or> 128 \<le> (of_char c :: nat)"
  by (auto simp: whiteSpace_def)

lemma trimStart_fixed: "find (startsWith s) whiteSpace = None \<Longrightarrow> trimStart s = s"
  by (simp add: trimStart.simps)

lemma trimEnd_fixed: "find (endsWith s) whiteSpace = None \<Longrightarrow> trimEnd s = s"
  by (simp add: trimEnd.simps)

lemma trimStart_clean: "find (startsWith (trimStart s)) whiteSpace = None"
proof (induction s rule: trimStart.induct)
  case (1 s)
  show ?case
  proof (cases "find (startsWith s) whiteSpace")
    case None
    then show ?thesis by (simp add: trimStart_fixed)
  next
    case (Some w)
    then have "trimStart s = trimStart (drop (length w) s)" by (simp add: trimStart.simps[of s])
    then show ?thesis using 1[OF Some] by simp
  qed
qed

lemma trimEnd_clean: "find (endsWith (trimEnd s)) whiteSpace = None"
proof (induction s rule: trimEnd.induct)
  case (1 s)
  show ?case
  proof (cases "find (endsWith s) whiteSpace")
    case None
    then show ?thesis by (simp add: trimEnd_fixed)
  next
    case (Some w)
    then have "trimEnd s = trimEnd (take (length s - length w) s)" by (simp add: trimEnd.simps[of s])
    then show ?thesis using 1[OF Some] by simp
  qed
qed

lemma trimEnd_prefix: "\<exists>r. s = trimEnd s @ r"
proof (induction s rule: trimEnd.induct)
  case (1 s)
  show ?case
  proof (cases "find (endsWith s) whiteSpace")
    case None
    then show ?thesis by (simp add: trimEnd_fixed)
  next
    case (Some w)
    then have e: "trimEnd s = trimEnd (take (length s - length w) s)" by (simp add: trimEnd.simps[of s])
    from 1[OF Some] obtain r where
      "take (length s - length w) s = trimEnd (take (length s - length w) s) @ r" by blast
    then have "s = trimEnd s @ r @ drop (length s - length w) s"
      unfolding e by (metis append.assoc append_take_drop_id)
    then show ?thesis by blast
  qed
qed

lemma startsWith_append: "startsWith u w \<Longrightarrow> startsWith (u @ r) w"
proof -
  assume a: "startsWith u w"
  have t: "take (length w) u = w" using a by (simp add: startsWith_def)
  have "length (take (length w) u) = min (length w) (length u)" by simp
  then have "length w \<le> length u" by (simp only: t)
  then show ?thesis using a by (simp add: startsWith_def)
qed

lemma trim_clean_start: "find (startsWith (trim s)) whiteSpace = None"
proof -
  obtain r where r: "trimStart s = trimEnd (trimStart s) @ r" using trimEnd_prefix by blast
  have "\<forall>w\<in>set whiteSpace. \<not> startsWith (trimStart s) w"
    using trimStart_clean[of s] by (simp add: find_None_iff)
  then have "\<forall>w\<in>set whiteSpace. \<not> startsWith (trimEnd (trimStart s)) w"
    using startsWith_append[of "trimEnd (trimStart s)" _ r] r by metis
  then show ?thesis by (simp add: find_None_iff trim_def)
qed

lemma trim_idem: "trim (trim s) = trim s"
proof -
  have "trimStart (trim s) = trim s" by (rule trimStart_fixed[OF trim_clean_start])
  moreover have "trimEnd (trim s) = trim s"
    unfolding trim_def by (rule trimEnd_fixed[OF trimEnd_clean])
  ultimately show ?thesis by (simp add: trim_def[of "trim s"])
qed

text \<open>A string that starts and ends with a visible ASCII character is its own trim.\<close>

lemma startsWith_hd: "startsWith s w \<Longrightarrow> w \<noteq> [] \<Longrightarrow> s \<noteq> [] \<and> hd s = hd w"
  by (cases w; cases s) (auto simp: startsWith_def)

lemma endsWith_last: "endsWith s w \<Longrightarrow> w \<noteq> [] \<Longrightarrow> s \<noteq> [] \<and> last s = last w"
proof -
  assume a: "endsWith s w" and w: "w \<noteq> []"
  then have l: "length w \<le> length s" and d: "drop (length s - length w) s = w"
    by (simp_all add: endsWith_def)
  from l w have s: "s \<noteq> []" by auto
  have "length s - length w < length s" using l w s by (cases w) auto
  then have "last (drop (length s - length w) s) = last s" by (rule last_drop)
  with d s show ?thesis by simp
qed

lemma trim_visible:
  assumes "s \<noteq> []"
    and "32 < (of_char (hd s) :: nat)" "(of_char (hd s) :: nat) < 128"
    and "32 < (of_char (last s) :: nat)" "(of_char (last s) :: nat) < 128"
  shows "trim s = s"
proof -
  have "\<forall>w\<in>set whiteSpace. \<not> startsWith s w"
  proof
    fix w assume w: "w \<in> set whiteSpace"
    show "\<not> startsWith s w"
    proof
      assume "startsWith s w"
      then have "hd s = hd w" using startsWith_hd whiteSpace_nonempty[OF w] by blast
      moreover have "hd w \<in> set w" using whiteSpace_nonempty[OF w] by simp
      ultimately show False using whiteSpace_bytes[OF w, of "hd s"] assms(2,3) by simp
    qed
  qed
  then have 1: "trimStart s = s" by (simp add: trimStart_fixed find_None_iff)
  have "\<forall>w\<in>set whiteSpace. \<not> endsWith s w"
  proof
    fix w assume w: "w \<in> set whiteSpace"
    show "\<not> endsWith s w"
    proof
      assume "endsWith s w"
      then have "last s = last w" using endsWith_last whiteSpace_nonempty[OF w] by blast
      moreover have "last w \<in> set w" using whiteSpace_nonempty[OF w] by simp
      ultimately show False using whiteSpace_bytes[OF w, of "last s"] assms(4,5) by simp
    qed
  qed
  then have 2: "trimEnd s = s" by (simp add: trimEnd_fixed find_None_iff)
  show ?thesis by (simp add: trim_def 1 2)
qed


lemma trim_x: "trim '' x'' = ''x''" "trim ''x'' = ''x''"
  by code_simp+

section \<open>Properties of the state store\<close>

subsection \<open>Finding and replacing a playlist\<close>


lemma findIndex_None: "findIndex P xs = None \<longleftrightarrow> (\<forall>x\<in>set xs. \<not> P x)"
  by (induction xs) (auto split: option.splits)

lemma findIndex_Some_lt: "findIndex P xs = Some i \<Longrightarrow> i < length xs \<and> P (xs ! i)"
  by (induction xs arbitrary: i) (auto split: option.splits if_splits)

lemma upsert_ids:
  "set (map p_id (playlists (upsertPlaylist s y))) = insert (p_id y) (set (map p_id (playlists s)))"
proof (cases "findIndex (\<lambda>p. p_id p = p_id y) (playlists s)")
  case None
  then show ?thesis by (simp add: upsertPlaylist_def)
next
  case (Some i)
  then have i: "i < length (playlists s)" "p_id (playlists s ! i) = p_id y"
    using findIndex_Some_lt[of "\<lambda>p. p_id p = p_id y"] by auto
  have "map p_id ((playlists s)[i := y]) = map p_id (playlists s)"
    using i by (simp add: map_update list_update_same_conv)
  moreover have "p_id y \<in> set (map p_id (playlists s))"
    using i by (metis length_map nth_map nth_mem)
  ultimately show ?thesis using Some by (auto simp: upsertPlaylist_def)
qed

lemma upsert_other: "selectedPlaylistId (upsertPlaylist s y) = selectedPlaylistId s"
  "version (upsertPlaylist s y) = version s"
  by (auto simp: upsertPlaylist_def split: option.splits)


subsection \<open>The collection invariant\<close>

lemma inv_iff: "collectionInvariant s \<longleftrightarrow>
   playlists s \<noteq> [] \<and> selectedPlaylistId s \<in> set (map p_id (playlists s))"
  by (force simp: collectionInvariant_def list_ex_iff)

lemma upsert_nonempty: "playlists (upsertPlaylist s y) \<noteq> []"
  using upsert_ids[of s y] by (metis empty_iff insertI1 list.map_disc_iff set_empty)

lemma inv_upsert: "collectionInvariant s \<Longrightarrow> collectionInvariant (upsertPlaylist s y)"
  unfolding inv_iff using upsert_ids[of s y] upsert_nonempty[of s y] by (simp add: upsert_other)

lemma inv_defaultState: "collectionInvariant (defaultState now r)"
  by (simp add: collectionInvariant_def defaultState_def Let_def)

lemma inv_delete:
  assumes "collectionInvariant s"
  shows "collectionInvariant (deletePlaylist now r s k)"
proof (cases "filter (\<lambda>p. p_id p \<noteq> k) (playlists s)")
  case Nil
  then show ?thesis by (simp add: deletePlaylist_def inv_defaultState)
next
  case (Cons q qs)
  have sel: "selectedPlaylistId s \<noteq> k \<Longrightarrow>
     selectedPlaylistId s \<in> set (map p_id (filter (\<lambda>p. p_id p \<noteq> k) (playlists s)))"
    using assms unfolding inv_iff by auto
  show ?thesis
    using Cons sel unfolding inv_iff by (auto simp: deletePlaylist_def)
qed

lemma inv_add: "collectionInvariant s \<Longrightarrow> collectionInvariant (addVideoToPlaylist s k item)"
  by (simp add: addVideoToPlaylist_def inv_upsert split: option.splits)

lemma inv_remove: "collectionInvariant s \<Longrightarrow> collectionInvariant (removeVideoFromPlaylist s k i)"
  by (simp add: removeVideoFromPlaylist_def inv_upsert split: option.splits)

lemma inv_update: "collectionInvariant s \<Longrightarrow> collectionInvariant (updateVideoInPlaylist s k i pt)"
  by (simp add: updateVideoInPlaylist_def inv_upsert split: option.splits)

lemma inv_move: "collectionInvariant s \<Longrightarrow> collectionInvariant (moveVideo s a b i)"
  by (simp add: moveVideo_def inv_add inv_remove split: option.splits)

lemma delete_last:
  "filter (\<lambda>p. p_id p \<noteq> k) (playlists s) = [] \<Longrightarrow>
     deletePlaylist now r s k = defaultState now r"
  by (simp add: deletePlaylist_def)

lemma delete_selected:
  "filter (\<lambda>p. p_id p \<noteq> k) (playlists s) = q # qs \<Longrightarrow> selectedPlaylistId s = k \<Longrightarrow>
     playlists (deletePlaylist now r s k) = q # qs \<and>
     selectedPlaylistId (deletePlaylist now r s k) = p_id q"
  by (simp add: deletePlaylist_def)

lemma defaultState_playlists:
  "playlists (defaultState now r) =
     [\<lparr> p_id = newId ''pl'' r, p_name = favoritesName, p_createdAt = now, p_items = [] \<rparr>]"
  by (simp add: defaultState_def Let_def)

text \<open>
  Claim C3. From a state that satisfies the collection invariant, each of the six
  operations of the state store returns a state that satisfies it. Deleting when no other
  playlist remains yields exactly the one seeded playlist, and deleting the selected
  playlist selects the first playlist that remains.
\<close>

theorem C3_invariant_preserved:
  assumes "collectionInvariant s"
  shows "collectionInvariant (upsertPlaylist s pl) \<and>
         collectionInvariant (deletePlaylist now r s k) \<and>
         collectionInvariant (addVideoToPlaylist s k item) \<and>
         collectionInvariant (removeVideoFromPlaylist s k vid) \<and>
         collectionInvariant (updateVideoInPlaylist s k vid patch) \<and>
         collectionInvariant (moveVideo s k k' vid) \<and>
         (filter (\<lambda>p. p_id p \<noteq> k) (playlists s) = [] \<longrightarrow>
            playlists (deletePlaylist now r s k) =
              [\<lparr> p_id = newId ''pl'' r, p_name = favoritesName, p_createdAt = now, p_items = [] \<rparr>]) \<and>
         (selectedPlaylistId s = k \<longrightarrow>
            (\<forall>q qs. filter (\<lambda>p. p_id p \<noteq> k) (playlists s) = q # qs \<longrightarrow>
               playlists (deletePlaylist now r s k) = q # qs \<and>
               selectedPlaylistId (deletePlaylist now r s k) = p_id q))"
proof -
  have "filter (\<lambda>p. p_id p \<noteq> k) (playlists s) = [] \<longrightarrow>
            playlists (deletePlaylist now r s k) =
              [\<lparr> p_id = newId ''pl'' r, p_name = favoritesName, p_createdAt = now, p_items = [] \<rparr>]"
    by (simp add: delete_last defaultState_playlists)
  moreover have "selectedPlaylistId s = k \<longrightarrow>
            (\<forall>q qs. filter (\<lambda>p. p_id p \<noteq> k) (playlists s) = q # qs \<longrightarrow>
               playlists (deletePlaylist now r s k) = q # qs \<and>
               selectedPlaylistId (deletePlaylist now r s k) = p_id q)"
    using delete_selected by blast
  ultimately show ?thesis
    by (simp only: inv_upsert[OF assms] inv_delete[OF assms] inv_add[OF assms]
          inv_remove[OF assms] inv_update[OF assms] inv_move[OF assms] simp_thms)
qed

theorem C3_witness:
  "collectionInvariant (ex_state [] []) \<and>
   collectionInvariant (deletePlaylist 7 ''r'' (ex_state [] []) ''A'') \<and>
   selectedPlaylistId (deletePlaylist 7 ''r'' (ex_state [] []) ''A'') = ''B'' \<and>
   collectionInvariant ex_single \<and>
   length (playlists (deletePlaylist 7 ''r'' ex_single ''A'')) = 1"
proof -
  have a: "collectionInvariant (ex_state [] [])"
    by (simp add: collectionInvariant_def ex_state_def)
  have b: "collectionInvariant ex_single"
    by (simp add: collectionInvariant_def ex_single_def)
  have f: "filter (\<lambda>p. p_id p \<noteq> ''A'') (playlists (ex_state [] [])) =
     [\<lparr> p_id = ''B'', p_name = ''Talks'', p_createdAt = 2, p_items = [] \<rparr>]"
    by (simp add: ex_state_def)
  have g: "filter (\<lambda>p. p_id p \<noteq> ''A'') (playlists ex_single) = []"
    by (simp add: ex_single_def)
  have s: "selectedPlaylistId (ex_state [] []) = ''A''" by (simp add: ex_state_def)
  from C3_invariant_preserved[OF a, where now = 7 and r = "''r''" and k = "''A''"] f s
  have 1: "collectionInvariant (deletePlaylist 7 ''r'' (ex_state [] []) ''A'')"
     "selectedPlaylistId (deletePlaylist 7 ''r'' (ex_state [] []) ''A'') = ''B''"
    by simp_all
  from C3_invariant_preserved[OF b, where now = 7 and r = "''r''" and k = "''A''"] g
  have 2: "length (playlists (deletePlaylist 7 ''r'' ex_single ''A'')) = 1" by simp
  from a b 1 2 show ?thesis by simp
qed

subsection \<open>The duplicate test of \<open>addVideoToPlaylist\<close>\<close>

text \<open>
  Claim C2 at an input where the code departs from it. The stored item and the new item
  have the same address, \<open>x\<close> after a space, and no \<open>videoId\<close>, so they have the same
  key, be it read with the address as it is or with the address trimmed. The new item is
  added all the same: the test compares the address of the stored item untrimmed with the
  trimmed address of the new item.
\<close>

theorem C2_duplicate_added:
  "v_url (ex_item ''b'' '' x'') = v_url (ex_item ''a'' '' x'') \<and>
   v_videoId (ex_item ''b'' '' x'') = None \<and> v_videoId (ex_item ''a'' '' x'') = None \<and>
   storedKey (ex_item ''b'' '' x'') = storedKey (ex_item ''a'' '' x'') \<and>
   videoKey (ex_item ''b'' '' x'') = videoKey (ex_item ''a'' '' x'') \<and>
   addVideoToPlaylist (ex_state [ex_item ''a'' '' x''] []) ''A'' (ex_item ''b'' '' x'') =
     ex_state [ex_item ''b'' '' x'', ex_item ''a'' '' x''] []"
  by (simp add: addVideoToPlaylist_def upsertPlaylist_def ex_state_def ex_item_def
        videoKey_def storedKey_def orElse_def trim_x)

text \<open>
  Claim C8 at inputs where the code departs from it. In the first the stored address is
  \<open>x\<close> and the new address is \<open>x\<close> after a space: the keys differ when the address is
  read as it is, and the state is returned unchanged. In the second the stored item has the
  address \<open>x\<close> after a space and the new item has that text as its \<open>videoId\<close>: the keys
  differ when the address is read trimmed, and the state is returned unchanged. In both the
  new item is not prepended.
\<close>

theorem C8_fresh_item_dropped:
  "storedKey (ex_item ''b'' '' x'') \<noteq> storedKey (ex_item ''a'' ''x'') \<and>
   addVideoToPlaylist (ex_state [ex_item ''a'' ''x''] []) ''A'' (ex_item ''b'' '' x'') =
     ex_state [ex_item ''a'' ''x''] [] \<and>
   videoKey ((ex_item ''b'' ''y'')\<lparr> v_videoId := Some '' x'' \<rparr>) \<noteq> videoKey (ex_item ''a'' '' x'') \<and>
   addVideoToPlaylist (ex_state [ex_item ''a'' '' x''] []) ''A''
       ((ex_item ''b'' ''y'')\<lparr> v_videoId := Some '' x'' \<rparr>) =
     ex_state [ex_item ''a'' '' x''] []"
  by (simp add: addVideoToPlaylist_def upsertPlaylist_def ex_state_def ex_item_def
        videoKey_def storedKey_def orElse_def trim_x)

subsection \<open>Moving an item\<close>

text \<open>
  Claim C1 at an input where the code departs from it. The item moved from \<open>A\<close> and the item
  that \<open>B\<close> holds have the same address, \<open>x\<close> after a space, and no \<open>videoId\<close>, so they
  have the same key. The moved item is not dropped: it arrives in \<open>B\<close>, which then holds two
  items.
\<close>

theorem C1_move_not_dropped:
  "v_url (ex_item ''a'' '' x'') = v_url (ex_item ''b'' '' x'') \<and>
   v_videoId (ex_item ''a'' '' x'') = None \<and> v_videoId (ex_item ''b'' '' x'') = None \<and>
   storedKey (ex_item ''a'' '' x'') = storedKey (ex_item ''b'' '' x'') \<and>
   videoKey (ex_item ''a'' '' x'') = videoKey (ex_item ''b'' '' x'') \<and>
   moveVideo (ex_state [ex_item ''a'' '' x''] [ex_item ''b'' '' x'']) ''A'' ''B'' ''a'' =
     ex_state [] [ex_item ''a'' '' x'', ex_item ''b'' '' x'']"
  by (simp add: moveVideo_def removeVideoFromPlaylist_def addVideoToPlaylist_def upsertPlaylist_def
        ex_state_def ex_item_def videoKey_def storedKey_def orElse_def trim_x)

subsection \<open>The object an operation returns\<close>

lemma deref_ops:
  "deref s (upsertPlaylistR s pl) = upsertPlaylist s pl"
  "deref s (deletePlaylistR now r s k) = deletePlaylist now r s k"
  "deref s (addVideoToPlaylistR s k item) = addVideoToPlaylist s k item"
  "deref s (removeVideoFromPlaylistR s k i) = removeVideoFromPlaylist s k i"
  "deref s (updateVideoInPlaylistR s k i pt) = updateVideoInPlaylist s k i pt"
  by (simp_all add: deref_def upsertPlaylistR_def deletePlaylistR_def addVideoToPlaylistR_def
        addVideoToPlaylist_def removeVideoFromPlaylistR_def removeVideoFromPlaylist_def
        updateVideoInPlaylistR_def updateVideoInPlaylist_def split: option.splits)

lemma deref_move: "deref s (moveVideoR s a b i) = moveVideo s a b i"
proof -
  have r: "\<And>x. deref s (removeVideoFromPlaylistR s a i) = removeVideoFromPlaylist s a i"
    by (rule deref_ops)
  have "\<And>s' item. addVideoToPlaylistR s' b item = SameRef \<Longrightarrow> addVideoToPlaylist s' b item = s'"
    using deref_ops(3) by (metis deref_def returned.simps(4))
  moreover have "\<And>s' item. deref s' (addVideoToPlaylistR s' b item) = addVideoToPlaylist s' b item"
    by (rule deref_ops)
  moreover have "removeVideoFromPlaylistR s a i = SameRef \<Longrightarrow> removeVideoFromPlaylist s a i = s"
    using r by (metis deref_def returned.simps(4))
  ultimately show ?thesis
    by (auto simp: moveVideoR_def moveVideo_def Let_def r deref_def[of s SameRef]
          deref_def[of s "NewObj _"] split: option.splits)
qed








section \<open>Properties of the import by merging\<close>

subsection \<open>The loop that looks for a free counter ends\<close>

lemma of_char_digit: "d < 10 \<Longrightarrow> (of_char (digitChar d) :: nat) = 48 + d"
  by (simp add: digitChar_def)

lemma readNat_snoc: "readNat (s @ [c]) = readNat s * 10 + (of_char c - 48)"
  by (simp add: readNat_def)

lemma readNat_showNat: "readNat (showNat n) = n"
proof (induction n rule: showNat.induct)
  case (1 n)
  show ?case
  proof (cases "n < 10")
    case True
    then show ?thesis by (simp add: readNat_def of_char_digit showNat.simps[of n])
  next
    case False
    then have "readNat (showNat n) = readNat (showNat (n div 10)) * 10 + (of_char (digitChar (n mod 10)) - 48)"
      by (subst showNat.simps) (simp add: readNat_snoc)
    also have "\<dots> = (n div 10) * 10 + n mod 10"
      using 1[OF False] by (simp add: of_char_digit)
    finally show ?thesis by simp
  qed
qed

lemma showNat_inj: "showNat a = showNat b \<Longrightarrow> a = b"
  by (metis readNat_showNat)

lemma candidate_inj: "inj (candidate k)"
  by (rule injI) (simp add: candidate_def showNat_inj)

lemma finite_candidates: "finite {j. candidate k j \<in> set names}"
proof -
  have "{j. candidate k j \<in> set names} = candidate k -` set names" by auto
  then show ?thesis using finite_vimageI[OF _ candidate_inj, of "set names" k] by simp
qed

termination findFree
proof (relation "measure (\<lambda>(names, k, i). card {j. i \<le> j \<and> candidate k j \<in> set names})")
  show "wf (measure (\<lambda>(names, k, i). card {j. i \<le> j \<and> candidate k j \<in> set names}))" by simp
next
  fix names :: "string list" and k :: string and i :: nat
  assume h: "candidate k i \<in> set names"
  have fin: "finite {j. i \<le> j \<and> candidate k j \<in> set names}"
    by (rule finite_subset[OF _ finite_candidates[of k names]]) auto
  have "{j. Suc i \<le> j \<and> candidate k j \<in> set names} \<subseteq> {j. i \<le> j \<and> candidate k j \<in> set names}"
    by auto
  moreover have "i \<in> {j. i \<le> j \<and> candidate k j \<in> set names}" using h by simp
  moreover have "i \<notin> {j. Suc i \<le> j \<and> candidate k j \<in> set names}" by simp
  ultimately have "{j. Suc i \<le> j \<and> candidate k j \<in> set names} \<subset> {j. i \<le> j \<and> candidate k j \<in> set names}"
    by blast
  then have "card {j. Suc i \<le> j \<and> candidate k j \<in> set names} < card {j. i \<le> j \<and> candidate k j \<in> set names}"
    by (rule psubset_card_mono[OF fin])
  then show "((names, k, Suc i), (names, k, i)) \<in>
     measure (\<lambda>(names, k, i). card {j. i \<le> j \<and> candidate k j \<in> set names})" by simp
qed

declare findFree.simps [simp del]

lemma showNat_small: "showNat 2 = ''2''" "showNat 3 = ''3''"
  by code_simp+

subsection \<open>Renaming the imported playlists\<close>

text \<open>
  Claim C7 at an input where the code departs from it. The collection holds \<open>Music\<close>, and
  \<open>Music\<close> followed by a space is imported twice. Both imported names collide with the
  name in the collection. The first becomes \<open>Music\<close>, two spaces and \<open>(2)\<close>; its key joins
  the running set with the two spaces, while the loop tests the key with one space. So the
  second collision finds the counter 2 free again: the counter is not incremented until the
  name is unique, the third collision does not yield \<open>(3)\<close>, and the two imported playlists
  end with the same name. Without the space the names are \<open>Music (2)\<close> and \<open>Music (3)\<close>.
\<close>

theorem C7_counter_not_advanced:
  "normName unicodeLower ''Music '' = normName unicodeLower ''Music'' \<and>
   map_option (\<lambda>s. map p_name (playlists s))
     (applyImportMerge unicodeLower ex_single
        (ex_import [ex_playlist ''x'' ''Music '', ex_playlist ''y'' ''Music ''])) =
     Some [''Music'', ''Music  (2)'', ''Music  (2)''] \<and>
   map_option (\<lambda>s. map p_name (playlists s))
     (applyImportMerge unicodeLower ex_single
        (ex_import [ex_playlist ''x'' ''Music'', ex_playlist ''y'' ''Music''])) =
     Some [''Music'', ''Music (2)'', ''Music (3)'']"
  by code_simp

section \<open>Properties of the URL normaliser\<close>

lemma clean_fold:
  assumes "urlLaws L"
  shows "hostname L (foldl (\<lambda>c k. if k \<in> set keep then c else spDelete L k c) u ks) = hostname L u \<and>
         pathname L (foldl (\<lambda>c k. if k \<in> set keep then c else spDelete L k c) u ks) = pathname L u \<and>
         searchParams L (foldl (\<lambda>c k. if k \<in> set keep then c else spDelete L k c) u ks) =
           filter (\<lambda>p. fst p \<in> set keep \<or> fst p \<notin> set ks) (searchParams L u)"
proof (induction ks arbitrary: u)
  case Nil
  show ?case by simp
next
  case (Cons k ks)
  show ?case
  proof (cases "k \<in> set keep")
    case True
    then show ?thesis using Cons.IH[of u] by (auto intro: filter_cong)
  next
    case False
    have d: "searchParams L (spDelete L k u) = filter (\<lambda>p. fst p \<noteq> k) (searchParams L u)"
      "hostname L (spDelete L k u) = hostname L u" "pathname L (spDelete L k u) = pathname L u"
      using assms by (simp_all add: urlLaws_def)
    show ?thesis using False Cons.IH[of "spDelete L k u"] d
      by (auto intro: filter_cong)
  qed
qed

lemma cleanParams_props:
  assumes "urlLaws L"
  shows "hostname L (cleanParams L u) = hostname L u"
    and "pathname L (cleanParams L u) = pathname L u"
    and "searchParams L (cleanParams L u) = filter (\<lambda>p. fst p \<in> set keep) (searchParams L u)"
proof -
  have "filter (\<lambda>p. fst p \<in> set keep \<or> fst p \<notin> set (map fst (searchParams L u))) (searchParams L u)
        = filter (\<lambda>p. fst p \<in> set keep) (searchParams L u)"
    by (rule filter_cong) auto
  then show "hostname L (cleanParams L u) = hostname L u"
    and "pathname L (cleanParams L u) = pathname L u"
    and "searchParams L (cleanParams L u) = filter (\<lambda>p. fst p \<in> set keep) (searchParams L u)"
    using clean_fold[OF assms, of u "map fst (searchParams L u)"] by (simp_all add: cleanParams_def)
qed

lemma foldl_keep_id:
  "\<forall>k\<in>set ks. k \<in> set keep \<Longrightarrow>
     foldl (\<lambda>c k. if k \<in> set keep then c else spDelete L k c) u ks = u"
  by (induction ks arbitrary: u) auto

lemma cleanParams_idem:
  assumes "urlLaws L"
  shows "cleanParams L (cleanParams L u) = cleanParams L u"
proof -
  have "\<forall>k\<in>set (map fst (searchParams L (cleanParams L u))). k \<in> set keep"
    by (auto simp: cleanParams_props(3)[OF assms])
  then show ?thesis
    by (subst cleanParams_def) (rule foldl_keep_id)
qed

lemma find_filter_keep: "Q k \<Longrightarrow> find (\<lambda>p. fst p = k) (filter (\<lambda>p. Q (fst p)) ps) = find (\<lambda>p. fst p = k) ps"
  by (induction ps) auto

lemma extract_clean:
  assumes "urlLaws L"
  shows "extractVideoId L (cleanParams L u) = extractVideoId L u"
proof -
  have "spGet (searchParams L (cleanParams L u)) ''v'' = spGet (searchParams L u) ''v''"
    unfolding spGet_def cleanParams_props(3)[OF assms]
    by (subst find_filter_keep[where Q = "\<lambda>k. k \<in> set keep"]) (simp_all add: keep_def)
  then show ?thesis
    by (simp only: extractVideoId_def cleanParams_props(1,2)[OF assms])
qed

text \<open>
  Claim C9. On a platform whose URL objects obey \<open>urlLaws\<close>, the normaliser returns for every
  input, and normalising the address it returned gives the same address and the same
  \<open>videoId\<close>. When the input does not parse this rests on \<open>trim\<close> being idempotent; when it
  parses, on the second pass finding only parameters of the list, the same host and the same
  path.
\<close>

theorem C9_normalize_idempotent:
  assumes "urlLaws L"
  shows "\<exists>r. normalizeYouTubeUrl L s = Some r \<and> normalizeYouTubeUrl L (n_url r) = Some r"
proof (cases "parseURL L (trim s)")
  case None
  then show ?thesis by (simp add: normalizeYouTubeUrl_def Let_def trim_idem)
next
  case (Some u)
  have p: "\<And>x. parseURL L (href L x) = Some x" and t: "\<And>x. trim (href L x) = href L x"
    using assms by (simp_all add: urlLaws_def)
  let ?c = "cleanParams L u"
  have 1: "normalizeYouTubeUrl L s = Some \<lparr> n_url = href L ?c, n_videoId = extractVideoId L u \<rparr>"
    using Some by (simp add: normalizeYouTubeUrl_def Let_def p)
  have 2: "normalizeYouTubeUrl L (href L ?c) =
             Some \<lparr> n_url = href L (cleanParams L ?c), n_videoId = extractVideoId L ?c \<rparr>"
    by (simp add: normalizeYouTubeUrl_def Let_def p t)
  show ?thesis
    using 1 2 by (simp add: cleanParams_idem[OF assms] extract_clean[OF assms])
qed


lemma ex_lib_laws: "urlLaws ex_lib"
proof -
  have 1: "\<forall>u. parseURL ex_lib (href ex_lib u) = Some u"
    by (auto simp: ex_lib_def split: ex_url.splits)
  have 2: "\<forall>u. trim (href ex_lib u) = href ex_lib u"
  proof
    fix u
    have "trim ''https://youtu.be/abc?utm=1'' = ''https://youtu.be/abc?utm=1''"
      "trim ''https://youtu.be/abc'' = ''https://youtu.be/abc''"
      by (rule trim_visible; simp)+
    then show "trim (href ex_lib u) = href ex_lib u"
      by (cases u) (simp_all add: ex_lib_def)
  qed
  have 3: "\<forall>k u. searchParams ex_lib (spDelete ex_lib k u) =
             filter (\<lambda>p. fst p \<noteq> k) (searchParams ex_lib u)"
    by (auto simp: ex_lib_def split: ex_url.splits)
  have 4: "\<forall>k u. hostname ex_lib (spDelete ex_lib k u) = hostname ex_lib u"
    "\<forall>k u. pathname ex_lib (spDelete ex_lib k u) = pathname ex_lib u"
    by (simp_all add: ex_lib_def)
  show ?thesis unfolding urlLaws_def using 1 2 3 4 by blast
qed

lemma ex_normalize:
  "normalizeYouTubeUrl ex_lib '' https://youtu.be/abc?utm=1 '' =
     Some \<lparr> n_url = ''https://youtu.be/abc'', n_videoId = Some ''abc'' \<rparr>"
proof -
  have "trim '' https://youtu.be/abc?utm=1 '' = ''https://youtu.be/abc?utm=1''" by code_simp
  then show ?thesis
    by (simp add: normalizeYouTubeUrl_def extractVideoId_def cleanParams_def Let_def ex_lib_def
          stripWww_def truthyAt_def keep_def)
qed

theorem C9_witness:
  "normalizeYouTubeUrl ex_lib '' https://youtu.be/abc?utm=1 '' =
     Some \<lparr> n_url = ''https://youtu.be/abc'', n_videoId = Some ''abc'' \<rparr> \<and>
   normalizeYouTubeUrl ex_lib ''https://youtu.be/abc'' =
     Some \<lparr> n_url = ''https://youtu.be/abc'', n_videoId = Some ''abc'' \<rparr>"
proof -
  from C9_normalize_idempotent[OF ex_lib_laws, of "'' https://youtu.be/abc?utm=1 ''"]
  obtain r where r: "normalizeYouTubeUrl ex_lib '' https://youtu.be/abc?utm=1 '' = Some r"
    "normalizeYouTubeUrl ex_lib (n_url r) = Some r" by blast
  from r(1) ex_normalize have "r = \<lparr> n_url = ''https://youtu.be/abc'', n_videoId = Some ''abc'' \<rparr>"
    by simp
  with r show ?thesis by simp
qed

section \<open>Properties of the share codec\<close>

subsection \<open>A token with an empty playlist list\<close>

text \<open>
  Claim C10. A token that matches the prefix pattern and unpacks to a payload with the
  version 1 and an empty playlist list is decoded without an exception. The state returned
  has no playlist; its selected identifier is the one minted at the end, and the state does
  not satisfy the collection invariant.
\<close>

theorem C10_empty_list_returns:
  assumes "matchToken (trim encoded) = Some data"
    and "unpack L data = Inr payload"
    and "truthy payload" and "getProp payload ''v'' = Some (JNum 1)"
    and "getProp payload ''p'' = Some (JArr [])"
  shows "decodeShareToState L now rnd encoded =
           Inr \<lparr> version = 1, selectedPlaylistId = newId ''pl'' (rnd 0), playlists = [] \<rparr> \<and>
         \<not> collectionInvariant
             \<lparr> version = 1, selectedPlaylistId = newId ''pl'' (rnd 0), playlists = [] \<rparr>"
  using assms by (simp add: decodeShareToState_def decodePayload_def collectionInvariant_def)

lemma ex_unpack: "unpack (ex_wire payload) ''ag'' = Inr payload"
  by (simp add: unpack_def base64UrlDecode_def fromBase64_def ex_wire_def)

lemma ex_match: "matchToken (trim ''v1.ag'') = Some ''ag''"
  by code_simp

theorem C10_witness:
  "decodeShareToState (ex_wire ex_empty_payload) 5 showNat ''v1.ag'' =
     Inr \<lparr> version = 1, selectedPlaylistId = ''pl_0'', playlists = [] \<rparr> \<and>
   \<not> collectionInvariant \<lparr> version = 1, selectedPlaylistId = ''pl_0'', playlists = [] \<rparr>"
proof -
  have n: "newId ''pl'' (showNat 0) = ''pl_0''" by code_simp
  from C10_empty_list_returns[OF ex_match ex_unpack, of ex_empty_payload 5 showNat]
  show ?thesis by (simp add: ex_empty_payload_def n)
qed

subsection \<open>When decoding throws\<close>

lemma collect_cases: "collect rs = Inl ErrType \<or> collect rs = Inl Untyped \<or> (\<exists>xs. collect rs = Inr xs)"
proof (induction rs)
  case Nil
  show ?case by simp
next
  case (Cons r rs)
  show ?case
  proof (cases r)
    case (Inl e)
    then show ?thesis using Cons by (auto split: sum.splits decodeFailure.splits)
  next
    case (Inr x)
    then show ?thesis using Cons by (auto split: sum.splits)
  qed
qed

lemma collect_ErrType: "collect rs = Inl ErrType \<longleftrightarrow> Inl ErrType \<in> set rs"
proof (induction rs)
  case Nil
  show ?case by simp
next
  case (Cons r rs)
  show ?case
  proof (cases r)
    case (Inl e)
    then show ?thesis using Cons collect_cases[of rs]
      by (auto split: sum.splits decodeFailure.splits)
  next
    case (Inr x)
    then show ?thesis using Cons by (auto split: sum.splits)
  qed
qed

lemma raises_collect: "raises (collect rs) \<longleftrightarrow> Inl ErrType \<in> set rs"
  using collect_cases[of rs] collect_ErrType[of rs] by (auto simp: raises_def)

lemma asString_not_ErrType: "asString j \<noteq> Inl ErrType"
  by (cases j) simp_all

lemma optString_not_ErrType: "optString v \<noteq> Inl ErrType"
  by (auto simp: optString_def split: option.splits json.splits)

lemma numberOr_not_ErrType: "numberOr v now \<noteq> Inl ErrType"
  by (auto simp: numberOr_def split: option.splits json.splits)

lemma stringOr_not_ErrType: "stringOr v d \<noteq> Inl ErrType"
  by (auto simp: stringOr_def split: option.splits json.splits)

lemma tagsOr_not_ErrType: "tagsOr v \<noteq> Inl ErrType"
proof -
  have "\<And>xs. collect (map asString xs) \<noteq> Inl ErrType"
    by (metis (no_types, lifting) collect_ErrType asString_not_ErrType imageE list.set_map)
  then show ?thesis by (auto simp: tagsOr_def split: option.splits json.splits)
qed

lemma decodeItem_ErrType: "decodeItem now r it = Inl ErrType \<longleftrightarrow> it = JNull"
proof (cases "it = JNull")
  case True
  then show ?thesis by (simp add: decodeItem_def)
next
  case False
  have "decodeItem now r it \<noteq> Inl ErrType"
    using False optString_not_ErrType numberOr_not_ErrType tagsOr_not_ErrType
    by (auto simp: decodeItem_def split: sum.splits option.splits json.splits)
  with False show ?thesis by simp
qed


lemma itemsOf_Inl: "itemsOf pl = Inl e \<Longrightarrow> e = ErrType"
  by (auto simp: itemsOf_def split: if_splits option.splits json.splits)

lemma items_ErrType:
  "collect (map (\<lambda>(k, it). decodeItem now (rnd (n + 1 + k)) it) (zip [0..<length its] its)) =
     Inl ErrType \<longleftrightarrow> JNull \<in> set its"
proof -
  have "\<And>x. (case x of (k, it) \<Rightarrow> decodeItem now (rnd (n + 1 + k)) it) = Inl ErrType
           \<longleftrightarrow> snd x = JNull"
    by (simp add: decodeItem_ErrType split: prod.splits)
  then have "Inl ErrType \<in> set (map (\<lambda>(k, it). decodeItem now (rnd (n + 1 + k)) it)
          (zip [0..<length its] its)) \<longleftrightarrow>
        (\<exists>x\<in>set (zip [0..<length its] its). snd x = JNull)"
    unfolding set_map image_iff by (metis (no_types, lifting))
  also have "\<dots> \<longleftrightarrow> JNull \<in> snd ` set (zip [0..<length its] its)"
    by force
  also have "snd ` set (zip [0..<length its] its) = set its"
    by (metis diff_zero length_upt list.set_map map_snd_zip)
  finally show ?thesis by (simp only: collect_ErrType)
qed

lemma decodePlaylist_ErrType: "decodePlaylist now rnd n pl = Inl ErrType \<longleftrightarrow> throwsOn pl"
proof (cases "itemsOf pl")
  case (Inl e)
  then show ?thesis using itemsOf_Inl[OF Inl] by (simp add: decodePlaylist_def throwsOn_def)
next
  case (Inr its)
  let ?c = "collect (map (\<lambda>(k, it). decodeItem now (rnd (n + 1 + k)) it) (zip [0..<length its] its))"
  from collect_cases[of "map (\<lambda>(k, it). decodeItem now (rnd (n + 1 + k)) it) (zip [0..<length its] its)"]
  consider "?c = Inl ErrType" | "?c = Inl Untyped" | xs where "?c = Inr xs" by blast
  then show ?thesis
  proof cases
    case 1
    then show ?thesis using Inr items_ErrType[of now rnd n its]
      by (simp add: decodePlaylist_def throwsOn_def)
  next
    case 2
    then have "JNull \<notin> set its" using items_ErrType[of now rnd n its] by simp
    then show ?thesis using Inr 2 by (simp add: decodePlaylist_def throwsOn_def)
  next
    case 3
    then have "JNull \<notin> set its" using items_ErrType[of now rnd n its] by simp
    then show ?thesis using Inr 3 stringOr_not_ErrType numberOr_not_ErrType
      by (auto simp: decodePlaylist_def throwsOn_def split: sum.splits)
  qed
qed

lemma decodePlaylists_ErrType:
  "Inl ErrType \<in> set (fst (decodePlaylists now rnd n pls)) \<longleftrightarrow> list_ex throwsOn pls"
proof (induction pls arbitrary: n)
  case Nil
  show ?case by simp
next
  case (Cons pl pls)
  obtain rs m where d: "decodePlaylists now rnd (n + minted pl) pls = (rs, m)"
    by (cases "decodePlaylists now rnd (n + minted pl) pls")
  have ih: "Inl ErrType \<in> set rs \<longleftrightarrow> list_ex throwsOn pls"
    using Cons[of "n + minted pl"] d by simp
  have "fst (decodePlaylists now rnd n (pl # pls)) = decodePlaylist now rnd n pl # rs"
    using d by simp
  then have "Inl ErrType \<in> set (fst (decodePlaylists now rnd n (pl # pls))) \<longleftrightarrow>
        decodePlaylist now rnd n pl = Inl ErrType \<or> Inl ErrType \<in> set rs"
    by auto
  then show ?case by (simp add: decodePlaylist_ErrType ih)
qed

lemma raises_decodePayload:
  "raises (decodePayload now rnd payload) \<longleftrightarrow>
     \<not> truthy payload \<or> getProp payload ''v'' \<noteq> Some (JNum 1) \<or>
     (case getProp payload ''p'' of Some (JArr pls) \<Rightarrow> list_ex throwsOn pls | _ \<Rightarrow> True)"
proof (cases "\<not> truthy payload \<or> getProp payload ''v'' \<noteq> Some (JNum 1)")
  case True
  then show ?thesis by (auto simp: decodePayload_def raises_def)
next
  case False
  show ?thesis
  proof (cases "\<exists>pls. getProp payload ''p'' = Some (JArr pls)")
    case True
    then obtain pls where p: "getProp payload ''p'' = Some (JArr pls)" by blast
    obtain rs m where d: "decodePlaylists now rnd 0 pls = (rs, m)" by (cases "decodePlaylists now rnd 0 pls")
    have "raises (collect rs) \<longleftrightarrow> list_ex throwsOn pls"
      using decodePlaylists_ErrType[of now rnd 0 pls] d by (simp add: raises_collect)
    moreover have "raises (decodePayload now rnd payload) \<longleftrightarrow> raises (collect rs)"
      using False p d by (auto simp: decodePayload_def raises_def split: sum.splits)
    ultimately show ?thesis using False p by simp
  next
    case F2: False
    then have "decodePayload now rnd payload = Inl ErrInvalid"
      using False by (auto simp: decodePayload_def split: option.splits json.splits)
    then show ?thesis using F2 by (auto simp: raises_def split: option.splits json.splits)
  qed
qed

lemma unpack_Inl: "unpack L data = Inl e \<Longrightarrow> e = ErrBase64 \<or> e = ErrInflate \<or> e = ErrJson"
  by (auto simp: unpack_def split: option.splits)

lemma raises_decode:
  "raises (decodeShareToState L now rnd encoded) \<longleftrightarrow>
     (case matchToken (trim encoded) of
        None \<Rightarrow> True
      | Some data \<Rightarrow>
         (case unpack L data of
            Inl e \<Rightarrow> True
          | Inr payload \<Rightarrow>
              \<not> truthy payload \<or> getProp payload ''v'' \<noteq> Some (JNum 1) \<or>
              (case getProp payload ''p'' of
                 Some (JArr pls) \<Rightarrow> list_ex throwsOn pls | _ \<Rightarrow> True)))"
proof (cases "matchToken (trim encoded)")
  case None
  then show ?thesis by (simp add: decodeShareToState_def raises_def)
next
  case (Some data)
  show ?thesis
  proof (cases "unpack L data")
    case (Inl e)
    then have "e \<noteq> Untyped" using unpack_Inl[OF Inl] by auto
    then show ?thesis using Some Inl by (simp add: decodeShareToState_def raises_def)
  next
    case (Inr payload)
    then show ?thesis using Some raises_decodePayload[of now rnd payload]
      by (simp add: decodeShareToState_def)
  qed
qed

lemma raises_preview:
  "raises (previewImport L now rnd encoded) \<longleftrightarrow>
     raises (decodeShareToState L now rnd encoded) \<or>
     (\<exists>s. decodeShareToState L now rnd encoded = Inr s \<and> playlists s = [])"
  by (cases "decodeShareToState L now rnd encoded") (auto simp: previewImport_def raises_def)

lemma effect_after_exception:
  assumes "raises (previewImport L now rnd encoded)"
  shows "applyImportEffect L now rnd encoded =
           Inr \<lparr> d_imported = None, d_error = importErrorText \<rparr>"
  using assms by (auto simp: applyImportEffect_def raises_def split: sum.splits)

lemma click_without_import: "d_imported d = None \<Longrightarrow> clickApply unicodeLower mode d state = Some state"
  by (simp add: clickApply_def)

lemma preview_returns:
  "previewImport L now rnd encoded = Inr s \<Longrightarrow>
     decodeShareToState L now rnd encoded = Inr s \<and> playlists s \<noteq> []"
  by (cases "decodeShareToState L now rnd encoded") (auto simp: previewImport_def split: if_splits)

text \<open>
  Claim C5, as the code has it. \<open>decodeShareToState\<close> throws exactly when the trimmed token
  does not match the prefix pattern, or base64, inflation or parsing fails, or the payload is
  falsy, its version is not the number 1 or its playlist list is not an array, or the
  callback throws on an element of the list (an element that is \<open>null\<close>, or whose items are
  a truthy value that is not an array, or hold a \<open>null\<close>). A token that does not match ends in
  the exception \<open>unsupported\<close>. An empty playlist list is not among the causes: the import
  dialog throws on it after the decoder has returned, and keeps a decoded state only when it
  has playlists. After any exception the dialog keeps no imported state and shows the
  message, and a click on either of its buttons leaves the collection as it is.
\<close>

theorem C5_decode_raises:
  "(raises (decodeShareToState L now rnd encoded) \<longleftrightarrow>
     (case matchToken (trim encoded) of
        None \<Rightarrow> True
      | Some data \<Rightarrow>
         (case unpack L data of
            Inl e \<Rightarrow> True
          | Inr payload \<Rightarrow>
              \<not> truthy payload \<or> getProp payload ''v'' \<noteq> Some (JNum 1) \<or>
              (case getProp payload ''p'' of
                 Some (JArr pls) \<Rightarrow> list_ex throwsOn pls | _ \<Rightarrow> True)))) \<and>
   (matchToken (trim encoded) = None \<longrightarrow>
      decodeShareToState L now rnd encoded = Inl ErrUnsupported) \<and>
   (unpack L data = Inl e \<longrightarrow> e = ErrBase64 \<or> e = ErrInflate \<or> e = ErrJson) \<and>
   (raises (previewImport L now rnd encoded) \<longleftrightarrow>
      raises (decodeShareToState L now rnd encoded) \<or>
      (\<exists>s. decodeShareToState L now rnd encoded = Inr s \<and> playlists s = [])) \<and>
   (\<forall>s. previewImport L now rnd encoded = Inr s \<longrightarrow>
      decodeShareToState L now rnd encoded = Inr s \<and> playlists s \<noteq> []) \<and>
   (raises (previewImport L now rnd encoded) \<longrightarrow>
      applyImportEffect L now rnd encoded =
        Inr \<lparr> d_imported = None, d_error = importErrorText \<rparr> \<and>
      clickApply unicodeLower mode \<lparr> d_imported = None, d_error = importErrorText \<rparr> state =
        Some state)"
proof -
  have "matchToken (trim encoded) = None \<longrightarrow>
      decodeShareToState L now rnd encoded = Inl ErrUnsupported"
    by (simp add: decodeShareToState_def)
  moreover have "unpack L data = Inl e \<longrightarrow> e = ErrBase64 \<or> e = ErrInflate \<or> e = ErrJson"
    using unpack_Inl by blast
  moreover have "\<forall>s. previewImport L now rnd encoded = Inr s \<longrightarrow>
      decodeShareToState L now rnd encoded = Inr s \<and> playlists s \<noteq> []"
    using preview_returns by blast
  moreover have "raises (previewImport L now rnd encoded) \<longrightarrow>
      applyImportEffect L now rnd encoded =
        Inr \<lparr> d_imported = None, d_error = importErrorText \<rparr> \<and>
      clickApply unicodeLower mode \<lparr> d_imported = None, d_error = importErrorText \<rparr> state =
        Some state"
    using effect_after_exception[of L now rnd encoded] by (simp add: click_without_import)
  ultimately show ?thesis
    using raises_decode[of L now rnd encoded] raises_preview[of L now rnd encoded]
    by (intro conjI) assumption+
qed

text \<open>
  The decoder returns on an empty playlist list, and it throws on a list that holds \<open>null\<close>
  although the version is 1 and the list is an array that is not empty.
\<close>

theorem C5_counterexample:
  "getProp ex_empty_payload ''p'' = Some (JArr []) \<and>
   \<not> raises (decodeShareToState (ex_wire ex_empty_payload) 5 showNat ''v1.ag'') \<and>
   getProp ex_null_payload ''v'' = Some (JNum 1) \<and>
   getProp ex_null_payload ''p'' = Some (JArr [JNull]) \<and>
   raises (decodeShareToState (ex_wire ex_null_payload) 5 showNat ''v1.ag'')"
  by (simp add: decodeShareToState_def decodePayload_def decodePlaylist_def itemsOf_def
        ex_match ex_unpack ex_empty_payload_def ex_null_payload_def raises_def minted_def)

text \<open>
  Claim C5, the theorem at example tokens: the decoder returns on the empty list where the
  dialog throws, it throws on a list that holds \<open>null\<close> and on a token with another prefix,
  and after the exception the dialog keeps nothing and a click leaves the collection alone.
\<close>

theorem C5_witness:
  "\<not> raises (decodeShareToState (ex_wire ex_empty_payload) 5 showNat ''v1.ag'') \<and>
   raises (previewImport (ex_wire ex_empty_payload) 5 showNat ''v1.ag'') \<and>
   raises (decodeShareToState (ex_wire ex_null_payload) 5 showNat ''v1.ag'') \<and>
   decodeShareToState (ex_wire ex_empty_payload) 5 showNat ''v2.ag'' = Inl ErrUnsupported \<and>
   applyImportEffect (ex_wire ex_empty_payload) 5 showNat ''v1.ag'' =
     Inr \<lparr> d_imported = None, d_error = importErrorText \<rparr> \<and>
   clickApply (\<lambda>s. s) Replace \<lparr> d_imported = None, d_error = importErrorText \<rparr> ex_single =
     Some ex_single"
proof -
  have m2: "matchToken (trim ''v2.ag'') = None"
    by code_simp
  have d: "decodeShareToState (ex_wire ex_empty_payload) 5 showNat ''v1.ag'' =
       Inr \<lparr> version = 1, selectedPlaylistId = newId ''pl'' (showNat 0), playlists = [] \<rparr>"
    by (simp add: decodeShareToState_def decodePayload_def ex_match ex_unpack ex_empty_payload_def)
  have 1: "\<not> raises (decodeShareToState (ex_wire ex_empty_payload) 5 showNat ''v1.ag'')"
    using C5_decode_raises[of "ex_wire ex_empty_payload" 5 showNat "''v1.ag''"]
    by (simp add: ex_match ex_unpack ex_empty_payload_def)
  have 2: "raises (previewImport (ex_wire ex_empty_payload) 5 showNat ''v1.ag'')"
    using C5_decode_raises[of "ex_wire ex_empty_payload" 5 showNat "''v1.ag''"] d by simp
  have 3: "raises (decodeShareToState (ex_wire ex_null_payload) 5 showNat ''v1.ag'')"
    using C5_decode_raises[of "ex_wire ex_null_payload" 5 showNat "''v1.ag''"]
    by (simp add: ex_match ex_unpack ex_null_payload_def throwsOn_def itemsOf_def)
  have 4: "decodeShareToState (ex_wire ex_empty_payload) 5 showNat ''v2.ag'' = Inl ErrUnsupported"
    using C5_decode_raises[of "ex_wire ex_empty_payload" 5 showNat "''v2.ag''"] m2 by simp
  have 5: "applyImportEffect (ex_wire ex_empty_payload) 5 showNat ''v1.ag'' =
     Inr \<lparr> d_imported = None, d_error = importErrorText \<rparr> \<and>
   clickApply (\<lambda>s. s) Replace \<lparr> d_imported = None, d_error = importErrorText \<rparr> ex_single =
     Some ex_single"
    using C5_decode_raises[of "ex_wire ex_empty_payload" 5 showNat "''v1.ag''" _ _ "\<lambda>s. s" Replace ex_single]
      2 by blast
  from 1 2 3 4 5 show ?thesis by simp
qed

subsection \<open>The base64url wrapper undoes itself\<close>





subsection \<open>From the state to the token and back\<close>
























end
